theory Spec2Isabelle
  imports Main "HOL-Library.Word"
begin

section \<open>Errors (src/errors.ts)\<close>

text \<open>
  A thrown JavaScript value is either an instance of \<open>GeminiError\<close> (with its \<open>name\<close>,
  \<open>message\<close> and \<open>code\<close> fields) or anything else: a plain \<open>Error\<close>, an error of the
  browser engine, or a non-error value. For the second kind only a description is kept.
\<close>

datatype thrown =
    GeminiError string string string
  | OtherError string

text \<open>
  The constructors of the three subclasses. A call without an argument uses the default
  message of the class, given below; \<open>BrowserError\<close> has no default.
\<close>

definition default_authentication_message :: string where
  "default_authentication_message = ''Not logged in to Google/Gemini''"

definition default_generation_message :: string where
  "default_generation_message = ''Image generation failed''"

definition AuthenticationError :: "string \<Rightarrow> thrown" where
  "AuthenticationError message = GeminiError ''AuthenticationError'' message ''AUTH_ERROR''"

definition GenerationError :: "string \<Rightarrow> thrown" where
  "GenerationError message = GeminiError ''GenerationError'' message ''GENERATION_ERROR''"

definition BrowserError :: "string \<Rightarrow> thrown" where
  "BrowserError message =
     GeminiError ''BrowserError'' (''Browser error: '' @ message) ''BROWSER_ERROR''"

fun isGeminiError :: "thrown \<Rightarrow> bool" where
  "isGeminiError (GeminiError n m c) = True"
| "isGeminiError (OtherError d) = False"

fun error_code :: "thrown \<Rightarrow> string option" where
  "error_code (GeminiError n m c) = Some c"
| "error_code (OtherError d) = None"

fun error_message :: "thrown \<Rightarrow> string" where
  "error_message (GeminiError n m c) = m"
| "error_message (OtherError d) = d"

definition auth_steps :: string where
  "auth_steps =
     ''\<newline>\<newline>Recovery steps:\<newline>'' @
     ''1. Clear browser profile: rm -rf ~/.geminikit/browser-profile\<newline>'' @
     ''2. Run with headless=false to open browser for login\<newline>'' @
     ''3. Log in to Google manually\<newline>'' @
     ''4. Session will be saved for future headless use''"

definition generation_steps :: string where
  "generation_steps =
     ''\<newline>\<newline>Recovery steps:\<newline>'' @
     ''1. Check if Gemini is available at gemini.google.com\<newline>'' @
     ''2. Try a different prompt (some content may be blocked)\<newline>'' @
     ''3. Verify your Google account has access to Gemini''"

definition browser_steps :: string where
  "browser_steps =
     ''\<newline>\<newline>Recovery steps:\<newline>'' @
     ''1. Kill any stuck browser processes\<newline>'' @
     ''2. Remove browser lock: rm -f ~/.geminikit/browser-profile/SingletonLock\<newline>'' @
     ''3. Try again''"

definition unexpected_text :: string where
  "unexpected_text = ''An unexpected error occurred. Please try again.''"

fun getErrorGuidance :: "thrown \<Rightarrow> string" where
  "getErrorGuidance (OtherError d) = unexpected_text"
| "getErrorGuidance (GeminiError n m c) =
     (if c = ''AUTH_ERROR'' then m @ auth_steps
      else if c = ''GENERATION_ERROR'' then m @ generation_steps
      else if c = ''BROWSER_ERROR'' then m @ browser_steps
      else m)"

text \<open>The three kinds the guidance function recognises.\<close>

definition recognised_kind :: "thrown \<Rightarrow> bool" where
  "recognised_kind e =
     (error_code e = Some ''AUTH_ERROR'' \<or> error_code e = Some ''GENERATION_ERROR''
      \<or> error_code e = Some ''BROWSER_ERROR'')"

section \<open>Options and results (src/types.ts)\<close>

record GenerateImageOptions =
  headless :: "bool option"
  aspectRatio :: "string option"
  timeout :: "int option"

text \<open>
  The object \<open>{width, height}\<close> that \<open>getImageDimensions\<close> returns, and the
  \<open>ImageResult\<close> that carries the same two fields and the path.
\<close>

record dimensions =
  width :: nat
  height :: nat

record ImageResult = dimensions +
  imagePath :: string

definition no_options :: GenerateImageOptions where
  "no_options = \<lparr>headless = None, aspectRatio = None, timeout = None\<rparr>"

section \<open>Prompt construction (GeminiClient.generateImage, "Build prompt")\<close>

text \<open>
  \<open>if (options.aspectRatio)\<close> tests JavaScript truthiness: an absent value and the empty
  string are both falsy, every other string is truthy.
\<close>

definition fullPrompt :: "string \<Rightarrow> GenerateImageOptions \<Rightarrow> string" where
  "fullPrompt prompt options =
     (let p = ''Generate an image: '' @ prompt
      in case aspectRatio options of
           None \<Rightarrow> p
         | Some ratio \<Rightarrow> (if ratio = [] then p else p @ '' (aspect ratio: '' @ ratio @ '')''))"

section \<open>The state of a run\<close>

type_synonym byte = "8 word"
type_synonym path = string

text \<open>
  What the client does to the browser engine and the operating system is recorded as a
  trace of events, oldest first.
\<close>

datatype event =
    Launch bool
  | ClosePage
  | NewPage
  | CloseContext
  | Goto string
  | Wait nat
  | Click string
  | Fill string
  | Press string
  | WaitForEvent string nat
  | SaveAs path
  | ExecFile path "path list"
  | Rename path path
  | Unlink path

text \<open>
  \<open>context_open\<close> and \<open>page_open\<close> say whether the fields \<open>context\<close> and \<open>_page\<close> of
  \<open>GeminiBrowser\<close> are non-null; \<open>files\<close> is the file system, the paths that
  exist with what they hold (directory creation is left out); \<open>now\<close> is the clock in
  milliseconds.
\<close>

record state =
  context_open :: bool
  page_open :: bool
  files :: "path \<rightharpoonup> byte list"
  now :: nat
  trace :: "event list"

type_synonym 'a js = "state \<Rightarrow> (thrown + 'a) \<times> state"

definition js_return :: "'a \<Rightarrow> 'a js" where
  "js_return x = (\<lambda>s. (Inr x, s))"

definition js_throw :: "thrown \<Rightarrow> 'a js" where
  "js_throw e = (\<lambda>s. (Inl e, s))"

definition js_bind :: "'a js \<Rightarrow> ('a \<Rightarrow> 'b js) \<Rightarrow> 'b js" where
  "js_bind m f = (\<lambda>s. case m s of (Inl e, s') \<Rightarrow> (Inl e, s') | (Inr x, s') \<Rightarrow> f x s')"

definition js_catch :: "'a js \<Rightarrow> (thrown \<Rightarrow> 'a js) \<Rightarrow> 'a js" where
  "js_catch m h = (\<lambda>s. case m s of (Inl e, s') \<Rightarrow> h e s' | (Inr x, s') \<Rightarrow> (Inr x, s'))"

text \<open>\<open>try { m } finally { c }\<close>: \<open>c\<close> runs in every case; an error of \<open>c\<close> replaces the outcome of \<open>m\<close>.\<close>

definition js_finally :: "'a js \<Rightarrow> unit js \<Rightarrow> 'a js" where
  "js_finally m c =
     (\<lambda>s. case m s of (r, s') \<Rightarrow>
        (case c s' of (Inl e, s'') \<Rightarrow> (Inl e, s'') | (Inr u, s'') \<Rightarrow> (r, s'')))"

definition log_event :: "event \<Rightarrow> unit js" where
  "log_event ev = (\<lambda>s. (Inr (), s\<lparr>trace := trace s @ [ev]\<rparr>))"

definition wait :: "nat \<Rightarrow> state \<Rightarrow> state" where
  "wait ms s = s\<lparr>now := now s + ms, trace := trace s @ [Wait ms]\<rparr>"

definition waitForTimeout :: "nat \<Rightarrow> unit js" where
  "waitForTimeout ms = (\<lambda>s. (Inr (), wait ms s))"

text \<open>\<open>String.prototype.includes\<close>.\<close>

fun str_includes :: "string \<Rightarrow> string \<Rightarrow> bool" where
  "str_includes [] p = (p = [])"
| "str_includes (c # cs) p = (take (length p) (c # cs) = p \<or> str_includes cs p)"

text \<open>
  A computation keeps the session when it leaves the two fields of \<open>GeminiBrowser\<close> as they
  are and only adds events to the trace.
\<close>

definition keeps_session :: "'a js \<Rightarrow> bool" where
  "keeps_session m =
     (\<forall>s. context_open (snd (m s)) = context_open s \<and> page_open (snd (m s)) = page_open s
          \<and> (\<exists>evs. trace (snd (m s)) = trace s @ evs))"

section \<open>The browser session (src/browser.ts)\<close>

text \<open>
  What the outside world does during \<open>connect\<close>: whether the engine launches, how many
  tabs the restored context holds, whether navigation succeeds, what the consent page
  shows, and what the page shows at the first login check and at each later poll.
\<close>

record login_snapshot =
  url :: string
  has_chat_input :: bool
  evaluate_fails :: bool

record session_env =
  launch_ok :: bool
  stale_pages :: nat
  connect_goto_ok :: bool
  landing_url :: string
  accept_visible :: bool
  accept_click_fails :: bool
  first_check :: login_snapshot
  login_polls :: "nat \<Rightarrow> login_snapshot"

definition browser_connect :: "session_env \<Rightarrow> bool option \<Rightarrow> unit js" where
  "browser_connect env hl =
     js_bind (log_event (Launch (case hl of None \<Rightarrow> False | Some b \<Rightarrow> b)))
       (\<lambda>_. if launch_ok env
            then (\<lambda>s. (Inr (), s\<lparr>context_open := True, page_open := True,
                                  trace := trace s @ replicate (stale_pages env) ClosePage @ [NewPage]\<rparr>))
            else js_throw (OtherError ''browserType.launchPersistentContext failed''))"

definition browser_disconnect :: "unit js" where
  "browser_disconnect =
     (\<lambda>s. if context_open s
          then (Inr (), s\<lparr>context_open := False, page_open := False, trace := trace s @ [CloseContext]\<rparr>)
          else (Inr (), s))"

definition browser_page :: "unit js" where
  "browser_page =
     (\<lambda>s. if page_open s then (Inr (), s)
          else (Inl (OtherError ''Not connected - call connect() first''), s))"

section \<open>The client (src/client.ts): connecting\<close>

definition page_goto :: "bool \<Rightarrow> unit js" where
  "page_goto ok =
     js_bind (log_event (Goto ''https://gemini.google.com/app''))
       (\<lambda>_. if ok then js_return () else js_throw (OtherError ''page.goto failed''))"

definition handleCookieConsent :: "session_env \<Rightarrow> unit js" where
  "handleCookieConsent env =
     js_bind browser_page (\<lambda>_.
       if str_includes (landing_url env) ''consent.google.com''
       then js_catch
              (if accept_visible env
               then (if accept_click_fails env then js_throw (OtherError ''locator.click failed'')
                     else js_bind (log_event (Click ''accept all'')) (\<lambda>_. waitForTimeout 2000))
               else js_return ())
              (\<lambda>err. js_return ())
       else js_return ())"

definition logged_in_check :: "login_snapshot \<Rightarrow> thrown + bool" where
  "logged_in_check p =
     (if evaluate_fails p then Inl (OtherError ''page.evaluate failed'')
      else if str_includes (url p) ''accounts.google.com'' then Inr False
      else Inr (has_chat_input p))"

text \<open>The body of the \<open>try\<close> block of one polling iteration.\<close>

definition poll_try :: "login_snapshot \<Rightarrow> thrown + bool" where
  "poll_try p =
     (if str_includes (url p) ''gemini.google.com''
      then (if evaluate_fails p then Inl (OtherError ''page.evaluate failed'')
            else Inr (has_chat_input p))
      else Inr False)"

function login_loop :: "(nat \<Rightarrow> login_snapshot) \<Rightarrow> nat \<Rightarrow> unit js" where
  "login_loop polls i s =
     (if i < 60
      then (let s1 = wait 5000 s
            in case poll_try (polls i) of
                 Inr True \<Rightarrow> (Inr (), s1)
               | Inr False \<Rightarrow> login_loop polls (Suc i) s1
               | Inl err \<Rightarrow> login_loop polls (Suc i) s1)
      else (Inl (AuthenticationError ''Login timeout after 5 minutes.''), s))"
  by pat_completeness auto
termination
  by (relation "measure (\<lambda>(polls, i, s). 60 - i)") auto

text \<open>A poll at which the login is detected.\<close>

definition login_ready :: "login_snapshot \<Rightarrow> bool" where
  "login_ready p = (poll_try p = Inr True)"

definition ensureLoggedIn :: "session_env \<Rightarrow> unit js" where
  "ensureLoggedIn env =
     js_bind browser_page (\<lambda>_.
       case logged_in_check (first_check env) of
         Inl err \<Rightarrow> js_throw err
       | Inr True \<Rightarrow> js_return ()
       | Inr False \<Rightarrow> login_loop (login_polls env) 0)"

definition client_connect :: "session_env \<Rightarrow> bool option \<Rightarrow> unit js" where
  "client_connect env hl =
     js_bind (browser_connect env hl) (\<lambda>_.
     js_bind browser_page (\<lambda>_.
     js_bind (page_goto (connect_goto_ok env)) (\<lambda>_.
     js_bind (waitForTimeout 3000) (\<lambda>_.
     js_bind (handleCookieConsent env) (\<lambda>_.
     ensureLoggedIn env)))))"


section \<open>Reading image dimensions (GeminiClient.getImageDimensions)\<close>

text \<open>\<open>Buffer.readUInt32BE\<close> and \<open>Buffer.readUInt16BE\<close>: a read past the end throws a RangeError.\<close>

definition readUInt32BE :: "byte list \<Rightarrow> nat \<Rightarrow> thrown + nat" where
  "readUInt32BE buf off =
     (if off + 4 \<le> length buf
      then Inr (unat (buf ! off) * 2 ^ 24 + unat (buf ! (off + 1)) * 2 ^ 16
                + unat (buf ! (off + 2)) * 2 ^ 8 + unat (buf ! (off + 3)))
      else Inl (OtherError ''RangeError: out of range''))"

definition readUInt16BE :: "byte list \<Rightarrow> nat \<Rightarrow> thrown + nat" where
  "readUInt16BE buf off =
     (if off + 2 \<le> length buf
      then Inr (unat (buf ! off) * 2 ^ 8 + unat (buf ! (off + 1)))
      else Inl (OtherError ''RangeError: out of range''))"

text \<open>
  \<open>Buffer.alloc(24)\<close> followed by \<open>fs.readSync(fd, header, 0, 24, 0)\<close>: the first 24
  bytes of the file, the rest of the buffer staying zero when the file is shorter.
\<close>

definition read_header :: "byte list \<Rightarrow> byte list" where
  "read_header content = take 24 content @ replicate (24 - length content) 0"

text \<open>The loop \<open>for (let i = 0; i < buf.length - 9; i++)\<close>.\<close>

function sof0_scan :: "byte list \<Rightarrow> nat \<Rightarrow> thrown + dimensions option" where
  "sof0_scan buf i =
     (if int i < int (length buf) - 9
      then (if buf ! i = 0xFF \<and> buf ! (i + 1) = 0xC0
            then (case readUInt16BE buf (i + 5) of
                    Inl err \<Rightarrow> Inl err
                  | Inr h \<Rightarrow> (case readUInt16BE buf (i + 7) of
                               Inl err \<Rightarrow> Inl err
                             | Inr w \<Rightarrow> Inr (Some \<lparr>width = w, height = h\<rparr>)))
            else sof0_scan buf (i + 1))
      else Inr None)"
  by pat_completeness auto
termination
  by (relation "measure (\<lambda>(buf, i). length buf - i)") auto

text \<open>The body of the \<open>try\<close> block; a file that cannot be opened throws.\<close>

definition dimensions_try :: "(path \<rightharpoonup> byte list) \<Rightarrow> path \<Rightarrow> thrown + dimensions option" where
  "dimensions_try fs filePath =
     (case fs filePath of
        None \<Rightarrow> Inl (OtherError ''ENOENT: no such file or directory'')
      | Some content \<Rightarrow>
          (let header = read_header content
           in if header ! 0 = 0x89 \<and> header ! 1 = 0x50
              then (case readUInt32BE header 16 of
                      Inl err \<Rightarrow> Inl err
                    | Inr w \<Rightarrow> (case readUInt32BE header 20 of
                                 Inl err \<Rightarrow> Inl err
                               | Inr h \<Rightarrow> Inr (Some \<lparr>width = w, height = h\<rparr>)))
              else sof0_scan content 0))"

definition getImageDimensions :: "(path \<rightharpoonup> byte list) \<Rightarrow> path \<Rightarrow> dimensions" where
  "getImageDimensions fs filePath =
     (case dimensions_try fs filePath of
        Inr (Some d) \<Rightarrow> d
      | Inr None \<Rightarrow> \<lparr>width = 0, height = 0\<rparr>
      | Inl err \<Rightarrow> \<lparr>width = 0, height = 0\<rparr>)"

text \<open>
  For stating what the inspector returns: the value of a byte sequence read as a big-endian
  number, and the test the scan applies at index \<open>j\<close>.
\<close>

definition be_value :: "byte list \<Rightarrow> nat" where
  "be_value bs = foldl (\<lambda>acc b. acc * 256 + unat b) 0 bs"

definition sof0_pair :: "byte list \<Rightarrow> nat \<Rightarrow> bool" where
  "sof0_pair buf j = (buf ! j = 0xFF \<and> buf ! (j + 1) = 0xC0)"

section \<open>Watermark removal (GeminiClient.removeWatermark)\<close>

text \<open>
  One run of the external tool: whether \<open>execFile\<close> rejects (non-zero exit, timeout or
  spawn error, with its message), what the tool left at its output path, and its standard
  output. The tool is an external program; it is taken to write nothing but its output path.
\<close>

record tool_run =
  tool_error :: "string option"
  tool_output :: "byte list option"
  tool_stdout :: string

text \<open>
  The host the client runs on: \<open>homedir\<close> stands for \<open>os.homedir()\<close> and \<open>path_join\<close>
  for \<open>path.join\<close> of Node; \<open>tool\<close> is the run of the external tool; \<open>rename_error\<close>
  and \<open>unlink_error\<close> say whether \<open>fs.renameSync\<close> and \<open>fs.unlinkSync\<close> throw, and with
  which message.
\<close>

record host_env =
  homedir :: string
  path_join :: "string list \<Rightarrow> path"
  tool :: tool_run
  rename_error :: "string option"
  unlink_error :: "string option"

definition removerDir :: "host_env \<Rightarrow> path" where
  "removerDir host = path_join host [homedir host, ''code'', ''WatermarkRemover-AI'']"

definition remover_script :: "host_env \<Rightarrow> path" where
  "remover_script host = path_join host [removerDir host, ''remwm.py'']"

definition venvPython :: "host_env \<Rightarrow> path" where
  "venvPython host = path_join host [removerDir host, ''venv'', ''bin'', ''python'']"

definition execFileAsync :: "tool_run \<Rightarrow> path \<Rightarrow> path \<Rightarrow> path \<Rightarrow> path \<Rightarrow> string js" where
  "execFileAsync run exe script inp outp =
     (\<lambda>s. let s1 = s\<lparr>files := (case tool_output run of
                                   None \<Rightarrow> files s
                                 | Some b \<Rightarrow> (files s)(outp \<mapsto> b)),
                      trace := trace s @ [ExecFile exe [script, inp, outp]]\<rparr>
          in case tool_error run of
               None \<Rightarrow> (Inr (tool_stdout run), s1)
             | Some msg \<Rightarrow> (Inl (OtherError msg), s1))"

definition renameSync :: "host_env \<Rightarrow> path \<Rightarrow> path \<Rightarrow> unit js" where
  "renameSync host src dst =
     (case rename_error host of
        Some msg \<Rightarrow> js_throw (OtherError msg)
      | None \<Rightarrow> (\<lambda>s. (Inr (), s\<lparr>files := (files s)(dst := files s src, src := None),
                                  trace := trace s @ [Rename src dst]\<rparr>)))"

definition unlinkSync :: "host_env \<Rightarrow> path \<Rightarrow> unit js" where
  "unlinkSync host p =
     (case unlink_error host of
        Some msg \<Rightarrow> js_throw (OtherError msg)
      | None \<Rightarrow> (\<lambda>s. (Inr (), s\<lparr>files := (files s)(p := None),
                                  trace := trace s @ [Unlink p]\<rparr>)))"

definition existsSync :: "path \<Rightarrow> bool js" where
  "existsSync p = (\<lambda>s. (Inr (files s p \<noteq> None), s))"

definition removeWatermark :: "host_env \<Rightarrow> path \<Rightarrow> unit js" where
  "removeWatermark host filePath =
     js_bind (existsSync (remover_script host)) (\<lambda>found.
       if \<not> found then js_return ()
       else (let tmpOut = filePath @ ''.clean.png''
             in js_catch
                  (js_bind (execFileAsync (tool host) (venvPython host) (remover_script host)
                              filePath tmpOut)
                     (\<lambda>stdout. js_bind (existsSync tmpOut) (\<lambda>cleaned.
                        if cleaned then renameSync host tmpOut filePath else js_return ())))
                  (\<lambda>err. js_bind (existsSync tmpOut) (\<lambda>partial.
                        if partial then unlinkSync host tmpOut else js_return ()))))"


section \<open>Generating an image (GeminiClient.generateImage)\<close>

text \<open>
  What the page shows at one poll of the generation wait: the text of the document body,
  whether evaluating it fails, whether a generated image is visible, whether the
  visibility check fails, and the time the checks of this iteration take.
\<close>

record gen_snapshot =
  body_text :: string
  body_eval_fails :: bool
  image_visible :: bool
  visible_check_fails :: bool
  overhead :: nat

text \<open>A download of the engine: its bytes and its failure signal.\<close>

record download =
  content :: "byte list"
  failure :: "string option"

text \<open>What the page does at one attempt to trigger the download.\<close>

record download_try =
  primary_visible :: bool
  primary_click_fails :: bool
  fallback_visible :: bool
  fallback_click_fails :: bool
  download_event :: "download option"

text \<open>
  The outside world during \<open>generateImage\<close>. \<open>path_resolve\<close> stands for
  \<open>path.resolve\<close> and \<open>show_seconds\<close> for the text JavaScript prints for
  \<open>timeout / 1000\<close>.
\<close>

record page_env =
  host :: host_env
  path_resolve :: "string \<Rightarrow> path"
  show_seconds :: "int \<Rightarrow> string"
  gen_goto_ok :: bool
  overlay_visible :: bool
  overlay_click_fails :: bool
  input_fails :: bool
  gen_polls :: "nat \<Rightarrow> gen_snapshot"
  button_appears :: bool
  download_tries :: "nat \<Rightarrow> download_try"

definition dismissOverlays :: "page_env \<Rightarrow> unit js" where
  "dismissOverlays env =
     js_catch
       (if overlay_visible env
        then (if overlay_click_fails env then js_throw (OtherError ''locator.click failed'')
              else js_bind (log_event (Click ''human-review-disclosure button''))
                     (\<lambda>_. waitForTimeout 500))
        else js_return ())
       (\<lambda>err. js_return ())"

definition fill_input :: "page_env \<Rightarrow> string \<Rightarrow> unit js" where
  "fill_input env text =
     (if input_fails env then js_throw (OtherError ''locator.click failed'')
      else js_bind (log_event (Click ''div[contenteditable=true]''))
             (\<lambda>_. log_event (Fill text)))"

definition refusal_text :: string where
  "refusal_text = ''Gemini refused to generate this image. Try a different prompt.''"

definition refusal_check :: "gen_snapshot \<Rightarrow> thrown + string option" where
  "refusal_check p =
     (if body_eval_fails p then Inl (OtherError ''page.evaluate failed'')
      else if str_includes (body_text p) ''I can't generate''
              \<or> str_includes (body_text p) ''I'm not able to generate''
      then Inr (Some refusal_text)
      else Inr None)"

text \<open>\<open>isVisible().catch(() => false)\<close>.\<close>

definition image_found :: "gen_snapshot \<Rightarrow> bool" where
  "image_found p = (if visible_check_fails p then False else image_visible p)"

text \<open>
  The loop \<open>while (Date.now() - startTime < timeout)\<close>; the result is \<open>imageFound\<close>.
\<close>

function gen_wait_loop :: "int \<Rightarrow> (nat \<Rightarrow> gen_snapshot) \<Rightarrow> nat \<Rightarrow> nat \<Rightarrow> bool js" where
  "gen_wait_loop tmo polls startTime k s =
     (if int (now s) - int startTime < tmo
      then (let s1 = wait 3000 s;
                s2 = s1\<lparr>now := now s1 + overhead (polls k)\<rparr>
            in case refusal_check (polls k) of
                 Inl err \<Rightarrow> (Inl err, s2)
               | Inr (Some refusal) \<Rightarrow> (Inl (GenerationError refusal), s2)
               | Inr None \<Rightarrow>
                   (if image_found (polls k) then (Inr True, s2)
                    else gen_wait_loop tmo polls startTime (Suc k) s2))
      else (Inr False, s))"
  by pat_completeness auto
termination
  by (relation "measure (\<lambda>(tmo, polls, startTime, k, s). nat (tmo - (int (now s) - int startTime)))")
     (auto simp: wait_def)

definition wait_for_image :: "page_env \<Rightarrow> int \<Rightarrow> bool js" where
  "wait_for_image env tmo = (\<lambda>s. gen_wait_loop tmo (gen_polls env) (now s) 0 s)"




definition after_poll :: "gen_snapshot \<Rightarrow> state \<Rightarrow> state" where
  "after_poll p s = (wait 3000 s)\<lparr>now := now (wait 3000 s) + overhead p\<rparr>"

definition wait_download_button :: "page_env \<Rightarrow> unit js" where
  "wait_download_button env =
     (if button_appears env then js_return ()
      else (\<lambda>s. (Inl (OtherError ''TimeoutError: locator.waitFor: Timeout 15000ms exceeded''),
                 s\<lparr>now := now s + 15000\<rparr>)))"

definition clickDownloadButton :: "download_try \<Rightarrow> unit js" where
  "clickDownloadButton t =
     (if primary_visible t
      then (if primary_click_fails t then js_throw (OtherError ''locator.click failed'')
            else log_event (Click ''[data-test-id=download-generated-image-button]''))
      else if fallback_visible t
      then (if fallback_click_fails t then js_throw (OtherError ''locator.click failed'')
            else log_event (Click ''button[name=/download/i]''))
      else js_throw (GenerationError ''Could not find download button''))"

text \<open>
  \<open>Promise.all([page.waitForEvent('download', {timeout: 30000}), clickDownloadButton(page)])\<close>:
  it rejects as soon as one of the two rejects, and otherwise yields the download.
\<close>

definition download_attempt :: "download_try \<Rightarrow> download js" where
  "download_attempt t =
     js_bind (log_event (WaitForEvent ''download'' 30000)) (\<lambda>_.
     js_bind (clickDownloadButton t) (\<lambda>_.
       case download_event t of
         Some d \<Rightarrow> js_return d
       | None \<Rightarrow> (\<lambda>s. (Inl (OtherError ''TimeoutError: Timeout 30000ms exceeded while waiting for event download''),
                        s\<lparr>now := now s + 30000\<rparr>))))"

text \<open>The loop \<open>for (let attempt = 0; attempt < 2; attempt++)\<close>; the result is the variable \<open>download\<close>.\<close>

function download_loop :: "(nat \<Rightarrow> download_try) \<Rightarrow> nat \<Rightarrow> download option js" where
  "download_loop tries attempt s =
     (if attempt < 2
      then (case download_attempt (tries attempt) s of
              (Inr d, s1) \<Rightarrow> (Inr (Some d), s1)
            | (Inl err, s1) \<Rightarrow>
                (if attempt = 0 then download_loop tries (Suc attempt) (wait 2000 s1)
                 else (Inl (GenerationError ''Download button did not trigger a file download''), s1)))
      else (Inr None, s))"
  by pat_completeness auto
termination
  by (relation "measure (\<lambda>(tries, attempt, s). 2 - attempt)") auto

text \<open>
  \<open>download!.saveAs(absPath)\<close> and \<open>download!.failure()\<close>. The loop above leaves
  \<open>download\<close> undefined on no path that reaches them; writing the file is taken to
  succeed. \<open>if (failure)\<close> is a truthiness test: \<open>null\<close> and the empty text pass.
\<close>

definition saveAs :: "download option \<Rightarrow> path \<Rightarrow> unit js" where
  "saveAs d absPath =
     (case d of
        None \<Rightarrow> js_throw (OtherError ''TypeError: Cannot read properties of undefined'')
      | Some dl \<Rightarrow> (\<lambda>s. (Inr (), s\<lparr>files := (files s)(absPath \<mapsto> content dl),
                                    trace := trace s @ [SaveAs absPath]\<rparr>)))"

definition check_failure :: "download option \<Rightarrow> unit js" where
  "check_failure d =
     (case d of
        None \<Rightarrow> js_throw (OtherError ''TypeError: Cannot read properties of undefined'')
      | Some dl \<Rightarrow> (case failure dl of
                     None \<Rightarrow> js_return ()
                   | Some f \<Rightarrow> (if f = [] then js_return ()
                               else js_throw (GenerationError (''Download failed: '' @ f)))))"

definition statSync :: "path \<Rightarrow> nat js" where
  "statSync p =
     (\<lambda>s. case files s p of
            None \<Rightarrow> (Inl (OtherError ''ENOENT: no such file or directory''), s)
          | Some bytes \<Rightarrow> (Inr (length bytes), s))"

definition read_dimensions :: "path \<Rightarrow> dimensions js" where
  "read_dimensions p = (\<lambda>s. (Inr (getImageDimensions (files s) p), s))"

text \<open>
  \<open>generateImage\<close> in three parts, in the order of the source: submitting the prompt (from
  the navigation to the Enter key), the generation wait, and everything from the download to
  the result.
\<close>

definition submit_prompt :: "page_env \<Rightarrow> string \<Rightarrow> unit js" where
  "submit_prompt env text =
     js_bind (page_goto (gen_goto_ok env)) (\<lambda>_.
     js_bind (waitForTimeout 3000) (\<lambda>_.
     js_bind (dismissOverlays env) (\<lambda>_.
     js_bind (fill_input env text) (\<lambda>_.
     js_bind (waitForTimeout 500) (\<lambda>_.
     log_event (Press ''Enter''))))))"

definition download_and_inspect :: "page_env \<Rightarrow> string \<Rightarrow> ImageResult js" where
  "download_and_inspect env outputPath =
     (let absPath = path_resolve env outputPath in
      js_bind (wait_download_button env) (\<lambda>_.
      js_bind (waitForTimeout 1000) (\<lambda>_.
      js_bind (download_loop (download_tries env) 0) (\<lambda>dl.
      js_bind (saveAs dl absPath) (\<lambda>_.
      js_bind (check_failure dl) (\<lambda>_.
      js_bind (removeWatermark (host env) absPath) (\<lambda>_.
      js_bind (statSync absPath) (\<lambda>size.
      js_bind (read_dimensions absPath) (\<lambda>d.
      js_return \<lparr>width = width d, height = height d, imagePath = absPath\<rparr>)))))))))"

definition client_generateImage ::
  "page_env \<Rightarrow> string \<Rightarrow> string \<Rightarrow> GenerateImageOptions \<Rightarrow> ImageResult js" where
  "client_generateImage env prompt outputPath options =
     js_bind browser_page (\<lambda>_.
     let tmo = (case timeout options of None \<Rightarrow> 120000 | Some t \<Rightarrow> t) in
     js_bind (submit_prompt env (fullPrompt prompt options)) (\<lambda>_.
     js_bind (wait_for_image env tmo) (\<lambda>imageFound.
     if \<not> imageFound
     then js_throw (GenerationError
            (''Image generation timed out after '' @ show_seconds env tmo @ ''s''))
     else download_and_inspect env outputPath)))"

section \<open>The top-level entry point (src/lib.ts)\<close>

text \<open>A freshly constructed client: no context, no page.\<close>

definition new_client :: "(path \<rightharpoonup> byte list) \<Rightarrow> nat \<Rightarrow> state" where
  "new_client fs clock =
     \<lparr>context_open = False, page_open = False, files = fs, now = clock, trace = []\<rparr>"

definition generateImage ::
  "session_env \<Rightarrow> page_env \<Rightarrow> string \<Rightarrow> string \<Rightarrow> GenerateImageOptions \<Rightarrow> ImageResult js" where
  "generateImage senv penv prompt outputPath options =
     js_finally
       (js_bind (client_connect senv (headless options))
          (\<lambda>_. client_generateImage penv prompt outputPath options))
       browser_disconnect"

section \<open>Example runs\<close>

text \<open>Concrete pages, sessions and files on which the model is evaluated.\<close>

definition chat_page :: login_snapshot where
  "chat_page = \<lparr>url = ''https://gemini.google.com/app'', has_chat_input = True,
                 evaluate_fails = False\<rparr>"

definition signin_page :: login_snapshot where
  "signin_page = \<lparr>url = ''https://accounts.google.com/signin'', has_chat_input = True,
                   evaluate_fails = False\<rparr>"

definition navigating_page :: login_snapshot where
  "navigating_page = \<lparr>url = ''https://gemini.google.com/app'', has_chat_input = False,
                       evaluate_fails = True\<rparr>"

definition ok_session :: session_env where
  "ok_session = \<lparr>launch_ok = True, stale_pages = 1, connect_goto_ok = True,
                  landing_url = ''https://gemini.google.com/app'', accept_visible = False,
                  accept_click_fails = False, first_check = chat_page,
                  login_polls = (\<lambda>k. chat_page)\<rparr>"

text \<open>The user logs in during the third poll; the second poll hits a navigation.\<close>

definition late_login_session :: session_env where
  "late_login_session =
     ok_session\<lparr>first_check := signin_page,
                login_polls := (\<lambda>k. if k = 0 then signin_page
                                     else if k = 1 then navigating_page else chat_page)\<rparr>"

definition never_login_session :: session_env where
  "never_login_session = ok_session\<lparr>first_check := signin_page, login_polls := (\<lambda>k. signin_page)\<rparr>"

definition no_launch_session :: session_env where
  "no_launch_session = ok_session\<lparr>launch_ok := False\<rparr>"

text \<open>A PNG file: signature, the IHDR chunk of a 2 by 3 image, and one byte more.\<close>

definition png_2x3 :: "byte list" where
  "png_2x3 = [0x89, 0x50, 0x4E, 0x47, 0x0D, 0x0A, 0x1A, 0x0A,
              0, 0, 0, 13, 0x49, 0x48, 0x44, 0x52,
              0, 0, 0, 2, 0, 0, 0, 3, 8]"

text \<open>
  A JPEG file: SOI, an SOF0 segment (length 17, precision 8, height 5, width 7, three
  components) and EOI.
\<close>

definition jpeg_7x5 :: "byte list" where
  "jpeg_7x5 = [0xFF, 0xD8, 0xFF, 0xC0, 0, 17, 8, 0, 5, 0, 7, 3,
               1, 0x22, 0, 2, 0x11, 1, 3, 0x11, 1, 0xFF, 0xD9]"

text \<open>
  Twenty-four bytes that are neither: they begin with 0x89 0x50, but the rest of the PNG
  signature is missing, and no byte is 0xFF.
\<close>

definition fake_png :: "byte list" where
  "fake_png = [0x89, 0x50, 0, 0, 0, 0, 0, 0,
               0, 0, 0, 0, 0, 0, 0, 0,
               0, 0, 0, 1, 0, 0, 0, 1]"

definition png_signature :: "byte list" where
  "png_signature = [0x89, 0x50, 0x4E, 0x47, 0x0D, 0x0A, 0x1A, 0x0A]"

definition thinking :: gen_snapshot where
  "thinking = \<lparr>body_text = ''Creating your image...'', body_eval_fails = False,
                image_visible = False, visible_check_fails = False, overhead = 40\<rparr>"

definition image_ready :: gen_snapshot where
  "image_ready = \<lparr>body_text = ''Here is your image.'', body_eval_fails = False,
                   image_visible = True, visible_check_fails = False, overhead = 40\<rparr>"

definition refused_with_image :: gen_snapshot where
  "refused_with_image = \<lparr>body_text = ''Sorry, I can't generate that.'', body_eval_fails = False,
                          image_visible = True, visible_check_fails = False, overhead = 40\<rparr>"

definition direct_download :: download_try where
  "direct_download = \<lparr>primary_visible = True, primary_click_fails = False,
                       fallback_visible = False, fallback_click_fails = False,
                       download_event = Some \<lparr>content = png_2x3, failure = None\<rparr>\<rparr>"

definition dead_click :: download_try where
  "dead_click = direct_download\<lparr>download_event := None\<rparr>"

definition no_control :: download_try where
  "no_control = \<lparr>primary_visible = False, primary_click_fails = False,
                  fallback_visible = False, fallback_click_fails = False,
                  download_event = None\<rparr>"

definition no_tool_run :: tool_run where
  "no_tool_run = \<lparr>tool_error = None, tool_output = None, tool_stdout = ''''\<rparr>"

definition failing_tool_run :: tool_run where
  "failing_tool_run = \<lparr>tool_error = Some ''Command failed with exit code 1'',
                        tool_output = Some [0x89, 0x50], tool_stdout = ''''\<rparr>"

definition cleaning_tool_run :: tool_run where
  "cleaning_tool_run = \<lparr>tool_error = None, tool_output = Some jpeg_7x5,
                         tool_stdout = ''done''\<rparr>"

text \<open>The image shows at the second poll and the first click downloads it.\<close>

text \<open>What \<open>path.join\<close> gives for segments that need no normalisation.\<close>

fun join_plain :: "string list \<Rightarrow> string" where
  "join_plain [] = ''.''"
| "join_plain [x] = x"
| "join_plain (x # y # ys) = x @ ''/'' @ join_plain (y # ys)"

definition plain_host :: host_env where
  "plain_host = \<lparr>homedir = ''/home/u'', path_join = join_plain, tool = no_tool_run,
                  rename_error = None, unlink_error = None\<rparr>"

definition happy_page :: page_env where
  "happy_page = \<lparr>host = plain_host, path_resolve = (\<lambda>p. ''/work/'' @ p),
                  show_seconds = (\<lambda>t. ''120''), gen_goto_ok = True, overlay_visible = False,
                  overlay_click_fails = False, input_fails = False,
                  gen_polls = (\<lambda>k. if k = 0 then thinking else image_ready),
                  button_appears = True, download_tries = (\<lambda>k. direct_download)\<rparr>"

text \<open>The download control is there when waited for and gone when clicked.\<close>

definition vanishing_button_page :: page_env where
  "vanishing_button_page = happy_page\<lparr>download_tries := (\<lambda>k. no_control)\<rparr>"

text \<open>A state in which the client is connected, and file systems with the removal tool installed.\<close>

definition connected :: state where
  "connected = \<lparr>context_open = True, page_open = True, files = Map.empty, now = 0, trace = []\<rparr>"

definition tool_installed :: "path \<rightharpoonup> byte list" where
  "tool_installed = [''/home/u/code/WatermarkRemover-AI/remwm.py'' \<mapsto> [0x23]]"

text \<open>A refusal and an image are on the page at the second poll.\<close>

definition refusing_page :: page_env where
  "refusing_page = happy_page\<lparr>gen_polls := (\<lambda>k. if k = 0 then thinking else refused_with_image)\<rparr>"

text \<open>The removal tool is installed and exits with an error, leaving a partial output.\<close>

definition failing_host :: host_env where
  "failing_host = plain_host\<lparr>tool := failing_tool_run\<rparr>"

definition cleaning_host :: host_env where
  "cleaning_host = plain_host\<lparr>tool := cleaning_tool_run\<rparr>"

definition failing_tool_page :: page_env where
  "failing_tool_page = happy_page\<lparr>host := failing_host\<rparr>"

definition cleaning_tool_page :: page_env where
  "cleaning_tool_page = happy_page\<lparr>host := cleaning_host\<rparr>"

definition connected_with_tool :: state where
  "connected_with_tool = connected\<lparr>files := tool_installed\<rparr>"

text \<open>The downloaded image is on disk and the removal tool is installed.\<close>

definition downloaded :: state where
  "downloaded = connected\<lparr>files := tool_installed(''/work/out.png'' \<mapsto> png_2x3)\<rparr>"

text \<open>No image at all: the text "hello world" and a line feed.\<close>

definition plain_text :: "byte list" where
  "plain_text = [0x68, 0x65, 0x6C, 0x6C, 0x6F, 0x20, 0x77, 0x6F, 0x72, 0x6C, 0x64, 0x0A]"

text \<open>The first click triggers no download, the second does; and no click ever does.\<close>

definition retry_page :: page_env where
  "retry_page = happy_page\<lparr>download_tries := (\<lambda>k. if k = 0 then dead_click else direct_download)\<rparr>"

definition dead_page :: page_env where
  "dead_page = happy_page\<lparr>download_tries := (\<lambda>k. dead_click)\<rparr>"

text \<open>
  The temporary output path of the tool is already taken by something that cannot be
  unlinked, a directory: the tool cannot write there and exits with an error, and
  \<open>fs.unlinkSync\<close> throws.
\<close>

definition blocked_tool_run :: tool_run where
  "blocked_tool_run = \<lparr>tool_error = Some ''Command failed with exit code 1'',
                        tool_output = None, tool_stdout = []\<rparr>"

definition blocked_host :: host_env where
  "blocked_host = plain_host\<lparr>tool := blocked_tool_run,
                   unlink_error := Some ''EISDIR: illegal operation on a directory, unlink''\<rparr>"

definition blocked_page :: page_env where
  "blocked_page = happy_page\<lparr>host := blocked_host\<rparr>"

definition connected_blocked :: state where
  "connected_blocked = connected\<lparr>files := tool_installed(''/work/out.png.clean.png'' \<mapsto> [])\<rparr>"

section \<open>Unfolding the model\<close>

lemmas js_defs = js_bind_def js_return_def js_throw_def js_catch_def js_finally_def log_event_def
  waitForTimeout_def wait_def

lemmas run_defs = generateImage_def client_connect_def browser_connect_def
  browser_page_def page_goto_def handleCookieConsent_def ensureLoggedIn_def logged_in_check_def
  client_generateImage_def submit_prompt_def download_and_inspect_def
  dismissOverlays_def fill_input_def wait_for_image_def
  refusal_check_def image_found_def wait_download_button_def
  download_attempt_def clickDownloadButton_def saveAs_def check_failure_def
  removeWatermark_def existsSync_def remover_script_def removerDir_def venvPython_def
  statSync_def read_dimensions_def execFileAsync_def renameSync_def unlinkSync_def
  getImageDimensions_def dimensions_try_def read_header_def readUInt32BE_def readUInt16BE_def
  browser_disconnect_def fullPrompt_def poll_try_def refusal_text_def

lemmas example_defs = ok_session_def no_options_def new_client_def chat_page_def signin_page_def
  navigating_page_def late_login_session_def never_login_session_def no_launch_session_def
  png_2x3_def jpeg_7x5_def fake_png_def png_signature_def thinking_def image_ready_def
  refused_with_image_def direct_download_def dead_click_def no_control_def no_tool_run_def
  failing_tool_run_def cleaning_tool_run_def happy_page_def vanishing_button_page_def
  connected_def tool_installed_def refusing_page_def failing_tool_page_def cleaning_tool_page_def
  connected_with_tool_def downloaded_def plain_text_def
  retry_page_def dead_page_def plain_host_def failing_host_def cleaning_host_def
  blocked_tool_run_def blocked_host_def blocked_page_def connected_blocked_def

section \<open>Error guidance\<close>

lemma last_auth_steps: "last (m @ auth_steps) = CHR ''e''"
  by (simp add: auth_steps_def)

lemma last_generation_steps: "last (m @ generation_steps) = CHR ''i''"
  by (simp add: generation_steps_def)

lemma last_browser_steps: "last (m @ browser_steps) = CHR ''n''"
  by (simp add: browser_steps_def)

text \<open>The three recovery texts end in different characters, so no two guidance texts coincide.\<close>

lemma guidance_texts_distinct:
  "m1 @ auth_steps \<noteq> m2 @ generation_steps"
  "m1 @ auth_steps \<noteq> m3 @ browser_steps"
  "m2 @ generation_steps \<noteq> m3 @ browser_steps"
proof -
  show "m1 @ auth_steps \<noteq> m2 @ generation_steps"
  proof
    assume "m1 @ auth_steps = m2 @ generation_steps"
    then have "last (m1 @ auth_steps) = last (m2 @ generation_steps)" by simp
    then show False by (simp only: last_auth_steps last_generation_steps) simp
  qed
  show "m1 @ auth_steps \<noteq> m3 @ browser_steps"
  proof
    assume "m1 @ auth_steps = m3 @ browser_steps"
    then have "last (m1 @ auth_steps) = last (m3 @ browser_steps)" by simp
    then show False by (simp only: last_auth_steps last_browser_steps) simp
  qed
  show "m2 @ generation_steps \<noteq> m3 @ browser_steps"
  proof
    assume "m2 @ generation_steps = m3 @ browser_steps"
    then have "last (m2 @ generation_steps) = last (m3 @ browser_steps)" by simp
    then show False by (simp only: last_generation_steps last_browser_steps) simp
  qed
qed

lemma steps_multi_line:
  "CHR 0x0A \<in> set (m @ auth_steps)"
  "CHR 0x0A \<in> set (m @ generation_steps)"
  "CHR 0x0A \<in> set (m @ browser_steps)"
  by (simp_all add: auth_steps_def generation_steps_def browser_steps_def)

text \<open>
  Claim C9, as stated, fails: an error that is none of the three kinds does not always get
  the generic text. A \<open>GeminiError\<close> with another code gets its own message back, which
  differs from the text returned for a value that is no \<open>GeminiError\<close>.
\<close>

theorem getErrorGuidance_unrecognised_counterexample:
  "\<not> recognised_kind (GeminiError ''GeminiError'' ''quota exceeded'' ''RATE_LIMIT'')
   \<and> \<not> recognised_kind (OtherError ''boom'')
   \<and> getErrorGuidance (GeminiError ''GeminiError'' ''quota exceeded'' ''RATE_LIMIT'') = ''quota exceeded''
   \<and> getErrorGuidance (GeminiError ''GeminiError'' ''quota exceeded'' ''RATE_LIMIT'')
       \<noteq> getErrorGuidance (OtherError ''boom'')"
  by (simp add: recognised_kind_def unexpected_text_def)

text \<open>
  Claim C9, amended: \<open>getErrorGuidance\<close> is a function of its argument alone. For the codes
  AUTH_ERROR, GENERATION_ERROR and BROWSER_ERROR it returns the error's message followed by
  recovery steps; the three texts are pairwise distinct whatever the messages are, and each
  has several lines. For a value that is no \<open>GeminiError\<close> it returns the fixed text
  "An unexpected error occurred. Please try again."; for a \<open>GeminiError\<close> with any other
  code it returns the error's own message, unchanged.
\<close>

theorem getErrorGuidance_by_kind:
  "getErrorGuidance (GeminiError n m ''AUTH_ERROR'') = m @ auth_steps
   \<and> getErrorGuidance (GeminiError n m ''GENERATION_ERROR'') = m @ generation_steps
   \<and> getErrorGuidance (GeminiError n m ''BROWSER_ERROR'') = m @ browser_steps
   \<and> getErrorGuidance (GeminiError n1 m1 ''AUTH_ERROR'')
       \<noteq> getErrorGuidance (GeminiError n2 m2 ''GENERATION_ERROR'')
   \<and> getErrorGuidance (GeminiError n1 m1 ''AUTH_ERROR'')
       \<noteq> getErrorGuidance (GeminiError n3 m3 ''BROWSER_ERROR'')
   \<and> getErrorGuidance (GeminiError n2 m2 ''GENERATION_ERROR'')
       \<noteq> getErrorGuidance (GeminiError n3 m3 ''BROWSER_ERROR'')
   \<and> CHR 0x0A \<in> set (getErrorGuidance (GeminiError n m ''AUTH_ERROR''))
   \<and> CHR 0x0A \<in> set (getErrorGuidance (GeminiError n m ''GENERATION_ERROR''))
   \<and> CHR 0x0A \<in> set (getErrorGuidance (GeminiError n m ''BROWSER_ERROR''))
   \<and> getErrorGuidance (OtherError d) = ''An unexpected error occurred. Please try again.''
   \<and> (\<not> recognised_kind (GeminiError n m c) \<longrightarrow> getErrorGuidance (GeminiError n m c) = m)"
  using guidance_texts_distinct steps_multi_line
  by (simp add: recognised_kind_def unexpected_text_def)

theorem getErrorGuidance_by_kind_witness:
  "\<not> recognised_kind (GeminiError ''GeminiError'' ''quota exceeded'' ''RATE_LIMIT'')
   \<and> getErrorGuidance (GeminiError ''GeminiError'' ''quota exceeded'' ''RATE_LIMIT'') = ''quota exceeded''
   \<and> getErrorGuidance (AuthenticationError ''Login timeout after 5 minutes.'')
       = ''Login timeout after 5 minutes.'' @ auth_steps"
  using getErrorGuidance_by_kind [where n = "''GeminiError''" and m = "''quota exceeded''" and c = "''RATE_LIMIT''"]
        getErrorGuidance_by_kind [where n = "''AuthenticationError''" and m = "''Login timeout after 5 minutes.''"]
  by (simp add: recognised_kind_def AuthenticationError_def)

section \<open>Waiting for the login\<close>


lemma login_ready_iff:
  "login_ready p \<longleftrightarrow>
     str_includes (url p) ''gemini.google.com'' \<and> \<not> evaluate_fails p \<and> has_chat_input p"
  by (simp add: login_ready_def poll_try_def)

declare login_loop.simps [simp del]

lemma login_loop_step:
  "i < 60 \<Longrightarrow> \<not> login_ready (polls i) \<Longrightarrow>
     login_loop polls i s = login_loop polls (Suc i) (wait 5000 s)"
  by (subst login_loop.simps, cases "poll_try (polls i)") (auto simp: login_ready_def Let_def)

lemma login_loop_hit:
  "i < 60 \<Longrightarrow> login_ready (polls i) \<Longrightarrow> login_loop polls i s = (Inr (), wait 5000 s)"
  by (subst login_loop.simps) (simp add: login_ready_def Let_def)

lemma login_loop_done:
  "login_loop polls 60 s = (Inl (AuthenticationError ''Login timeout after 5 minutes.''), s)"
  by (subst login_loop.simps) simp

lemma wait_replicate:
  "wait ms (s\<lparr>now := now s + ms * n, trace := trace s @ replicate n (Wait ms)\<rparr>)
     = s\<lparr>now := now s + ms * Suc n, trace := trace s @ replicate (Suc n) (Wait ms)\<rparr>"
  by (simp add: wait_def replicate_append_same)

lemma login_loop_success:
  "i + n < 60 \<Longrightarrow> (\<forall>k<n. \<not> login_ready (polls (i + k))) \<Longrightarrow> login_ready (polls (i + n)) \<Longrightarrow>
     login_loop polls i s
       = (Inr (), s\<lparr>now := now s + 5000 * Suc n, trace := trace s @ replicate (Suc n) (Wait 5000)\<rparr>)"
proof (induction n arbitrary: i s)
  case 0
  then show ?case by (simp add: login_loop_hit wait_def)
next
  case (Suc n)
  have first: "\<not> login_ready (polls i)" using Suc.prems(2) by force
  have rest: "\<forall>k<n. \<not> login_ready (polls (Suc i + k))"
  proof (intro allI impI)
    fix k assume "k < n"
    then have "\<not> login_ready (polls (i + Suc k))" using Suc.prems(2) by blast
    then show "\<not> login_ready (polls (Suc i + k))" by simp
  qed
  have "login_loop polls i s = login_loop polls (Suc i) (wait 5000 s)"
    using Suc.prems(1) first by (simp add: login_loop_step)
  also have "\<dots> = (Inr (), (wait 5000 s)\<lparr>now := now (wait 5000 s) + 5000 * Suc n,
                        trace := trace (wait 5000 s) @ replicate (Suc n) (Wait 5000)\<rparr>)"
    using Suc.IH [of "Suc i" "wait 5000 s"] Suc.prems(1,3) rest by simp
  finally show ?case by (simp add: wait_def replicate_app_Cons_same)
qed

lemma login_loop_timeout:
  "i \<le> 60 \<Longrightarrow> (\<forall>k<60 - i. \<not> login_ready (polls (i + k))) \<Longrightarrow>
     login_loop polls i s
       = (Inl (AuthenticationError ''Login timeout after 5 minutes.''),
          s\<lparr>now := now s + 5000 * (60 - i), trace := trace s @ replicate (60 - i) (Wait 5000)\<rparr>)"
proof (induction "60 - i" arbitrary: i s)
  case 0
  then have "i = 60" by simp
  then show ?case by (simp add: login_loop_done)
next
  case (Suc m)
  then have lt: "i < 60" and m: "m = 60 - Suc i" by simp_all
  have first: "\<not> login_ready (polls i)" using Suc.prems(2) lt by force
  have rest: "\<forall>k<60 - Suc i. \<not> login_ready (polls (Suc i + k))"
  proof (intro allI impI)
    fix k assume "k < 60 - Suc i"
    then have "Suc k < 60 - i" by simp
    then have "\<not> login_ready (polls (i + Suc k))" using Suc.prems(2) by blast
    then show "\<not> login_ready (polls (Suc i + k))" by simp
  qed
  have "login_loop polls i s = login_loop polls (Suc i) (wait 5000 s)"
    using lt first by (simp add: login_loop_step)
  also have "\<dots> = (Inl (AuthenticationError ''Login timeout after 5 minutes.''),
       (wait 5000 s)\<lparr>now := now (wait 5000 s) + 5000 * (60 - Suc i),
          trace := trace (wait 5000 s) @ replicate (60 - Suc i) (Wait 5000)\<rparr>)"
    using Suc.hyps(1) [of "Suc i" "wait 5000 s"] m lt rest by simp
  also have "\<dots> = (Inl (AuthenticationError ''Login timeout after 5 minutes.''),
          s\<lparr>now := now s + 5000 * (60 - i), trace := trace s @ replicate (60 - i) (Wait 5000)\<rparr>)"
  proof -
    have e: "60 - i = Suc (60 - Suc i)" using lt by simp
    show ?thesis unfolding e by (simp add: wait_def replicate_app_Cons_same)
  qed
  finally show ?case .
qed

lemma example_not_ready:
  "\<not> login_ready signin_page" "\<not> login_ready navigating_page" "login_ready chat_page"
  by (simp_all add: login_ready_iff signin_page_def navigating_page_def chat_page_def)

text \<open>
  Claim C2, as stated, fails in one point: the error raised when all 60 polls are used up
  does not carry the message "Login timeout after 5 minutes" but that text followed by a
  full stop.
\<close>

theorem login_timeout_message_counterexample:
  "fst (ensureLoggedIn never_login_session connected)
     = Inl (AuthenticationError ''Login timeout after 5 minutes.'')
   \<and> fst (ensureLoggedIn never_login_session connected)
     \<noteq> Inl (AuthenticationError ''Login timeout after 5 minutes'')"
proof -
  have "ensureLoggedIn never_login_session connected
          = login_loop (login_polls never_login_session) 0 connected"
    by (simp add: ensureLoggedIn_def browser_page_def js_bind_def connected_def
        logged_in_check_def never_login_session_def signin_page_def)
  moreover have "\<forall>k<60 - 0. \<not> login_ready (login_polls never_login_session (0 + k))"
    by (simp add: never_login_session_def example_not_ready)
  ultimately show ?thesis
    using login_loop_timeout [of 0 "login_polls never_login_session" connected]
    by (simp add: AuthenticationError_def)
qed

text \<open>
  Claim C2, amended: in \<open>ensureLoggedIn\<close>, if the first logged-in check reports "not logged
  in", the driver polls at most 60 times, waiting 5 seconds before each poll. If poll
  \<open>N + 1\<close> (with \<open>N + 1 \<le> 60\<close>) is the first at which the URL is on gemini.google.com and a
  chat input is present, it returns success at that poll, after exactly \<open>N + 1\<close> waits; a
  poll whose evaluation throws counts as "not yet" and does not abort the wait. If none of
  the 60 polls succeeds it fails, after 60 waits (5 minutes), with an error of code
  AUTH_ERROR whose message is "Login timeout after 5 minutes." (with the full stop).
\<close>

theorem ensureLoggedIn_polling:
  assumes "page_open s" and "logged_in_check (first_check env) = Inr False"
  shows "(N < 60 \<and> (\<forall>k<N. \<not> login_ready (login_polls env k)) \<and> login_ready (login_polls env N)
            \<longrightarrow> ensureLoggedIn env s
                  = (Inr (), s\<lparr>now := now s + 5000 * Suc N,
                                trace := trace s @ replicate (Suc N) (Wait 5000)\<rparr>))
       \<and> ((\<forall>k<60. \<not> login_ready (login_polls env k))
            \<longrightarrow> ensureLoggedIn env s
                  = (Inl (GeminiError ''AuthenticationError'' ''Login timeout after 5 minutes.''
                            ''AUTH_ERROR''),
                     s\<lparr>now := now s + 300000, trace := trace s @ replicate 60 (Wait 5000)\<rparr>))"
proof -
  have start: "ensureLoggedIn env s = login_loop (login_polls env) 0 s"
    using assms by (simp add: ensureLoggedIn_def browser_page_def js_bind_def)
  show ?thesis
    using login_loop_success [of 0 N "login_polls env" s]
          login_loop_timeout [of 0 "login_polls env" s]
    by (simp add: start AuthenticationError_def)
qed

theorem ensureLoggedIn_polling_witness:
  "page_open connected
   \<and> logged_in_check (first_check late_login_session) = Inr False
   \<and> \<not> login_ready (login_polls late_login_session 0)
   \<and> \<not> login_ready (login_polls late_login_session 1)
   \<and> evaluate_fails (login_polls late_login_session 1)
   \<and> login_ready (login_polls late_login_session 2)
   \<and> ensureLoggedIn late_login_session connected
       = (Inr (), connected\<lparr>now := 15000, trace := replicate 3 (Wait 5000)\<rparr>)
   \<and> logged_in_check (first_check never_login_session) = Inr False
   \<and> ensureLoggedIn never_login_session connected
       = (Inl (GeminiError ''AuthenticationError'' ''Login timeout after 5 minutes.'' ''AUTH_ERROR''),
          connected\<lparr>now := 300000, trace := replicate 60 (Wait 5000)\<rparr>)"
proof -
  have open_page: "page_open connected" by (simp add: connected_def)
  have first: "logged_in_check (first_check late_login_session) = Inr False"
    by (simp add: logged_in_check_def late_login_session_def signin_page_def)
  have first': "logged_in_check (first_check never_login_session) = Inr False"
    by (simp add: logged_in_check_def never_login_session_def signin_page_def)
  have n0: "\<not> login_ready (login_polls late_login_session 0)"
    by (simp add: late_login_session_def example_not_ready)
  have n1: "\<not> login_ready (login_polls late_login_session 1)"
    by (simp add: late_login_session_def example_not_ready)
  have ef: "evaluate_fails (login_polls late_login_session 1)"
    by (simp add: late_login_session_def navigating_page_def)
  have polls: "\<forall>k<2. \<not> login_ready (login_polls late_login_session k)"
  proof (intro allI impI)
    fix k :: nat assume "k < 2"
    then have "k = 0 \<or> k = 1" by auto
    then show "\<not> login_ready (login_polls late_login_session k)" using n0 n1 by auto
  qed
  have hit: "login_ready (login_polls late_login_session 2)"
    by (simp add: late_login_session_def example_not_ready)
  have never: "\<forall>k<60. \<not> login_ready (login_polls never_login_session k)"
    by (simp add: never_login_session_def example_not_ready)
  have late: "ensureLoggedIn late_login_session connected
       = (Inr (), connected\<lparr>now := now connected + 5000 * Suc 2,
                             trace := trace connected @ replicate (Suc 2) (Wait 5000)\<rparr>)"
  proof -
    have lt: "(2::nat) < 60" by simp
    show ?thesis
      using ensureLoggedIn_polling [OF open_page first, of 2] lt polls hit by blast
  qed
  have nev: "ensureLoggedIn never_login_session connected
       = (Inl (GeminiError ''AuthenticationError'' ''Login timeout after 5 minutes.'' ''AUTH_ERROR''),
          connected\<lparr>now := now connected + 300000,
                     trace := trace connected @ replicate 60 (Wait 5000)\<rparr>)"
    using ensureLoggedIn_polling [OF open_page first', of 0] never by blast
  have c: "now connected = 0" "trace connected = []" by (simp_all add: connected_def)
  have three: "Suc 2 = 3" by simp
  show ?thesis
    unfolding late nev c three using open_page first first' n0 n1 ef hit by simp
qed

section \<open>Waiting for the image\<close>


declare gen_wait_loop.simps [simp del]




lemma after_poll_simps [simp]:
  "now (after_poll p s) = now s + 3000 + overhead p"
  "trace (after_poll p s) = trace s @ [Wait 3000]"
  "context_open (after_poll p s) = context_open s"
  "page_open (after_poll p s) = page_open s"
  "files (after_poll p s) = files s"
  by (simp_all add: after_poll_def wait_def)




lemma gen_wait_loop_expired:
  "\<not> int (now s) - int startTime < tmo \<Longrightarrow> gen_wait_loop tmo polls startTime k s = (Inr False, s)"
  by (subst gen_wait_loop.simps) simp





lemma js_bind_fst_Inl: "fst (m s) = Inl e \<Longrightarrow> fst (js_bind m f s) = Inl e"
  by (cases "m s") (auto simp: js_bind_def)




section \<open>Triggering the download\<close>

declare download_loop.simps [simp del]

lemma clickDownloadButton_no_control:
  "\<not> primary_visible t \<Longrightarrow> \<not> fallback_visible t \<Longrightarrow>
     clickDownloadButton t s = (Inl (GenerationError ''Could not find download button''), s)"
  by (simp add: clickDownloadButton_def js_throw_def)

lemma download_loop_last_attempt:
  "download_loop tries (Suc 0) s =
     (case download_attempt (tries 1) s of
        (Inr d, s1) \<Rightarrow> (Inr (Some d), s1)
      | (Inl err, s1) \<Rightarrow>
          (Inl (GenerationError ''Download button did not trigger a file download''), s1))"
  by (subst download_loop.simps) (simp split: prod.splits sum.splits)

lemma download_loop_two_attempts:
  "download_loop tries 0 s =
     (case download_attempt (tries 0) s of
        (Inr d, s1) \<Rightarrow> (Inr (Some d), s1)
      | (Inl err, s1) \<Rightarrow>
          (case download_attempt (tries 1) (wait 2000 s1) of
             (Inr d, s2) \<Rightarrow> (Inr (Some d), s2)
           | (Inl err2, s2) \<Rightarrow>
               (Inl (GenerationError ''Download button did not trigger a file download''), s2)))"
  by (subst download_loop.simps) (simp add: download_loop_last_attempt split: prod.splits sum.splits)

lemma download_attempt_no_control:
  "\<not> primary_visible t \<Longrightarrow> \<not> fallback_visible t \<Longrightarrow>
     download_attempt t s
       = (Inl (GenerationError ''Could not find download button''),
          s\<lparr>trace := trace s @ [WaitForEvent ''download'' 30000]\<rparr>)"
  by (simp add: download_attempt_def clickDownloadButton_no_control js_bind_def log_event_def)

lemma download_loop_no_control:
  assumes "\<not> primary_visible (tries 0)" "\<not> fallback_visible (tries 0)"
    and "\<not> primary_visible (tries 1)" "\<not> fallback_visible (tries 1)"
  shows "fst (download_loop tries 0 s)
           = Inl (GenerationError ''Download button did not trigger a file download'')"
  using assms by (simp add: download_loop_two_attempts download_attempt_no_control)

section \<open>What the client leaves untouched\<close>

lemma keeps_sessionI:
  "(\<And>s. context_open (snd (m s)) = context_open s \<and> page_open (snd (m s)) = page_open s
          \<and> (\<exists>evs. trace (snd (m s)) = trace s @ evs)) \<Longrightarrow> keeps_session m"
  by (simp add: keeps_session_def)

lemma keeps_sessionD:
  assumes "keeps_session m"
  shows "context_open (snd (m s)) = context_open s" "page_open (snd (m s)) = page_open s"
    "\<exists>evs. trace (snd (m s)) = trace s @ evs"
  using assms by (simp_all add: keeps_session_def)

lemma keeps_return [simp]: "keeps_session (js_return x)"
  by (simp add: keeps_session_def js_return_def)

lemma keeps_throw [simp]: "keeps_session (js_throw e)"
  by (simp add: keeps_session_def js_throw_def)

lemma keeps_log [simp]: "keeps_session (log_event ev)"
  by (simp add: keeps_session_def log_event_def)

lemma keeps_wait [simp]: "keeps_session (waitForTimeout ms)"
  by (simp add: keeps_session_def waitForTimeout_def wait_def)

lemma keeps_bind [intro]:
  assumes "keeps_session m" and "\<And>x. keeps_session (f x)"
  shows "keeps_session (js_bind m f)"
proof (rule keeps_sessionI)
  fix s
  show "context_open (snd (js_bind m f s)) = context_open s
        \<and> page_open (snd (js_bind m f s)) = page_open s
        \<and> (\<exists>evs. trace (snd (js_bind m f s)) = trace s @ evs)"
  proof (cases "m s")
    case (Pair r s1)
    have m: "context_open s1 = context_open s" "page_open s1 = page_open s"
      "\<exists>evs. trace s1 = trace s @ evs"
      using keeps_sessionD [OF assms(1), of s] Pair by simp_all
    show ?thesis
    proof (cases r)
      case (Inl e)
      then show ?thesis using Pair m by (simp add: js_bind_def)
    next
      case (Inr x)
      have f: "context_open (snd (f x s1)) = context_open s1" "page_open (snd (f x s1)) = page_open s1"
        "\<exists>evs. trace (snd (f x s1)) = trace s1 @ evs"
        using keeps_sessionD [OF assms(2), of x s1] by simp_all
      from m(3) f(3) have "\<exists>evs. trace (snd (f x s1)) = trace s @ evs" by auto
      then show ?thesis using Pair Inr m f by (simp add: js_bind_def)
    qed
  qed
qed

lemma keeps_catch [intro]:
  assumes "keeps_session m" and "\<And>e. keeps_session (h e)"
  shows "keeps_session (js_catch m h)"
proof (rule keeps_sessionI)
  fix s
  show "context_open (snd (js_catch m h s)) = context_open s
        \<and> page_open (snd (js_catch m h s)) = page_open s
        \<and> (\<exists>evs. trace (snd (js_catch m h s)) = trace s @ evs)"
  proof (cases "m s")
    case (Pair r s1)
    have m: "context_open s1 = context_open s" "page_open s1 = page_open s"
      "\<exists>evs. trace s1 = trace s @ evs"
      using keeps_sessionD [OF assms(1), of s] Pair by simp_all
    show ?thesis
    proof (cases r)
      case (Inr x)
      then show ?thesis using Pair m by (simp add: js_catch_def)
    next
      case (Inl e)
      have f: "context_open (snd (h e s1)) = context_open s1" "page_open (snd (h e s1)) = page_open s1"
        "\<exists>evs. trace (snd (h e s1)) = trace s1 @ evs"
        using keeps_sessionD [OF assms(2), of e s1] by simp_all
      from m(3) f(3) have "\<exists>evs. trace (snd (h e s1)) = trace s @ evs" by auto
      then show ?thesis using Pair Inl m f by (simp add: js_catch_def)
    qed
  qed
qed

lemma keeps_if [intro]:
  "keeps_session a \<Longrightarrow> keeps_session b \<Longrightarrow> keeps_session (if c then a else b)"
  by simp

lemma keeps_browser_page [simp]: "keeps_session browser_page"
  by (simp add: keeps_session_def browser_page_def)

lemma keeps_page_goto [simp]: "keeps_session (page_goto ok)"
  unfolding page_goto_def by (intro keeps_bind keeps_if) simp_all

lemma keeps_handleCookieConsent [simp]: "keeps_session (handleCookieConsent env)"
  unfolding handleCookieConsent_def by (intro keeps_bind keeps_if keeps_catch) simp_all

lemma keeps_wait_state:
  "context_open (wait ms s) = context_open s" "page_open (wait ms s) = page_open s"
  "trace (wait ms s) = trace s @ [Wait ms]"
  by (simp_all add: wait_def)

lemma login_loop_past:
  "\<not> i < 60 \<Longrightarrow> login_loop polls i s
     = (Inl (AuthenticationError ''Login timeout after 5 minutes.''), s)"
  by (subst login_loop.simps) simp

lemma login_loop_frame:
  "context_open (snd (login_loop polls i s)) = context_open s
   \<and> page_open (snd (login_loop polls i s)) = page_open s
   \<and> (\<exists>evs. trace (snd (login_loop polls i s)) = trace s @ evs)"
proof (induction "60 - i" arbitrary: i s)
  case 0
  then have "\<not> i < 60" by simp
  then show ?case by (simp add: login_loop_past)
next
  case (Suc m)
  then have lt: "i < 60" and m: "m = 60 - Suc i" by simp_all
  show ?case
  proof (cases "login_ready (polls i)")
    case True
    then show ?thesis using lt by (simp add: login_loop_hit keeps_wait_state)
  next
    case False
    have "context_open (snd (login_loop polls (Suc i) (wait 5000 s))) = context_open (wait 5000 s)
        \<and> page_open (snd (login_loop polls (Suc i) (wait 5000 s))) = page_open (wait 5000 s)
        \<and> (\<exists>evs. trace (snd (login_loop polls (Suc i) (wait 5000 s))) = trace (wait 5000 s) @ evs)"
      using Suc.hyps(1) [OF m] .
    then show ?thesis
      using lt False by (auto simp: login_loop_step keeps_wait_state)
  qed
qed

lemma keeps_login_loop [simp]: "keeps_session (login_loop polls i)"
  by (rule keeps_sessionI) (rule login_loop_frame)

lemma keeps_ensureLoggedIn [simp]: "keeps_session (ensureLoggedIn env)"
  unfolding ensureLoggedIn_def
  by (intro keeps_bind) (simp_all split: sum.splits bool.splits)

lemma gen_wait_loop_frame:
  "context_open (snd (gen_wait_loop tmo polls st k s)) = context_open s
   \<and> page_open (snd (gen_wait_loop tmo polls st k s)) = page_open s
   \<and> (\<exists>evs. trace (snd (gen_wait_loop tmo polls st k s)) = trace s @ evs)"
proof (induction "nat (tmo - (int (now s) - int st))" arbitrary: k s rule: less_induct)
  case less
  show ?case
  proof (cases "int (now s) - int st < tmo")
    case False
    then show ?thesis by (simp add: gen_wait_loop_expired)
  next
    case True
    have smaller: "nat (tmo - (int (now (after_poll (polls k) s)) - int st))
        < nat (tmo - (int (now s) - int st))"
      using True by simp
    have ih: "context_open (snd (gen_wait_loop tmo polls st (Suc k) (after_poll (polls k) s)))
          = context_open (after_poll (polls k) s)
        \<and> page_open (snd (gen_wait_loop tmo polls st (Suc k) (after_poll (polls k) s)))
          = page_open (after_poll (polls k) s)
        \<and> (\<exists>evs. trace (snd (gen_wait_loop tmo polls st (Suc k) (after_poll (polls k) s)))
                  = trace (after_poll (polls k) s) @ evs)"
      using less [OF smaller] .
    have step: "gen_wait_loop tmo polls st k s
        = (case refusal_check (polls k) of
             Inl err \<Rightarrow> (Inl err, after_poll (polls k) s)
           | Inr (Some refusal) \<Rightarrow> (Inl (GenerationError refusal), after_poll (polls k) s)
           | Inr None \<Rightarrow>
               (if image_found (polls k) then (Inr True, after_poll (polls k) s)
                else gen_wait_loop tmo polls st (Suc k) (after_poll (polls k) s)))"
      using True by (subst gen_wait_loop.simps)
        (simp add: Let_def after_poll_def split: sum.splits option.splits)
    show ?thesis
      unfolding step using ih
      by (auto split: sum.splits option.splits)
  qed
qed

lemma keeps_wait_for_image [simp]: "keeps_session (wait_for_image env tmo)"
  by (rule keeps_sessionI) (simp add: wait_for_image_def gen_wait_loop_frame)

lemma keeps_submit_prompt [simp]: "keeps_session (submit_prompt env text)"
  unfolding submit_prompt_def dismissOverlays_def fill_input_def
  by (intro keeps_bind keeps_if keeps_catch) simp_all

lemma keeps_clickDownloadButton [simp]: "keeps_session (clickDownloadButton t)"
  unfolding clickDownloadButton_def by (intro keeps_if) simp_all

lemma keeps_download_attempt [simp]: "keeps_session (download_attempt t)"
proof -
  have "keeps_session (case download_event t of
         Some d \<Rightarrow> js_return d
       | None \<Rightarrow> (\<lambda>s. (Inl (OtherError ''TimeoutError: Timeout 30000ms exceeded while waiting for event download''),
                        s\<lparr>now := now s + 30000\<rparr>)))"
    by (cases "download_event t") (simp_all add: keeps_session_def js_return_def)
  then show ?thesis
    unfolding download_attempt_def by (intro keeps_bind) simp_all
qed

lemma keeps_download_loop [simp]: "keeps_session (download_loop tries 0)"
proof (rule keeps_sessionI)
  fix s
  obtain r1 s1 where a1: "download_attempt (tries 0) s = (r1, s1)" by (cases "download_attempt (tries 0) s")
  obtain r2 s2 where a2: "download_attempt (tries 1) (wait 2000 s1) = (r2, s2)"
    by (cases "download_attempt (tries 1) (wait 2000 s1)")
  have k1: "context_open s1 = context_open s" "page_open s1 = page_open s"
      "\<exists>evs. trace s1 = trace s @ evs"
    using keeps_sessionD [OF keeps_download_attempt, of "tries 0" s] a1 by simp_all
  have k2: "context_open s2 = context_open s1" "page_open s2 = page_open s1"
      "\<exists>evs. trace s2 = trace s1 @ [Wait 2000] @ evs"
    using keeps_sessionD [OF keeps_download_attempt, of "tries 1" "wait 2000 s1"] a2
    by (simp_all add: keeps_wait_state)
  from k1(3) k2(3) have k3: "\<exists>evs. trace s2 = trace s @ evs" by auto
  show "context_open (snd (download_loop tries 0 s)) = context_open s
        \<and> page_open (snd (download_loop tries 0 s)) = page_open s
        \<and> (\<exists>evs. trace (snd (download_loop tries 0 s)) = trace s @ evs)"
    using a1 a2 k1 k2(1,2) k3
    by (auto simp: download_loop_two_attempts split: sum.splits)
qed

lemma keeps_removeWatermark [simp]: "keeps_session (removeWatermark h p)"
proof -
  have e: "\<And>q. keeps_session (existsSync q)" by (simp add: keeps_session_def existsSync_def)
  have r: "\<And>a b. keeps_session (renameSync h a b)"
    by (simp add: keeps_session_def renameSync_def js_throw_def split: option.splits)
  have u: "\<And>a. keeps_session (unlinkSync h a)"
    by (simp add: keeps_session_def unlinkSync_def js_throw_def split: option.splits)
  have x: "\<And>run a b c d. keeps_session (execFileAsync run a b c d)"
    by (simp add: keeps_session_def execFileAsync_def Let_def split: option.splits)
  show ?thesis
    unfolding removeWatermark_def Let_def
    by (intro keeps_bind keeps_if keeps_catch e r u x) simp_all
qed

lemma keeps_download_and_inspect [simp]: "keeps_session (download_and_inspect env out)"
proof -
  have w: "keeps_session (wait_download_button env)"
    by (simp add: keeps_session_def wait_download_button_def js_return_def)
  have sv: "\<And>d p. keeps_session (saveAs d p)"
    by (simp add: keeps_session_def saveAs_def js_throw_def split: option.splits)
  have cf: "\<And>d. keeps_session (check_failure d)"
    by (simp add: keeps_session_def check_failure_def js_throw_def js_return_def
        split: option.splits)
  have st: "\<And>p. keeps_session (statSync p)"
    by (simp add: keeps_session_def statSync_def split: option.splits)
  have rd: "\<And>p. keeps_session (read_dimensions p)"
    by (simp add: keeps_session_def read_dimensions_def)
  show ?thesis
    unfolding download_and_inspect_def Let_def
    by (intro keeps_bind w sv cf st rd) simp_all
qed

lemma keeps_client_generateImage [simp]:
  "keeps_session (client_generateImage env prompt out options)"
  unfolding client_generateImage_def Let_def
  by (intro keeps_bind keeps_if) simp_all

section \<open>The session manager\<close>

text \<open>
  Claim C7, as stated, fails: reading the page of a client that was never connected throws
  a plain \<open>Error\<close>, which is no \<open>GeminiError\<close> and has no code, so not BROWSER_ERROR.
\<close>

theorem page_before_connect_counterexample:
  "fst (browser_page (new_client Map.empty 0)) = Inl (OtherError ''Not connected - call connect() first'')
   \<and> \<not> isGeminiError (OtherError ''Not connected - call connect() first'')
   \<and> error_code (OtherError ''Not connected - call connect() first'') \<noteq> Some ''BROWSER_ERROR''"
  by (simp add: browser_page_def new_client_def)

text \<open>
  Claim C7, amended: accessing \<open>GeminiBrowser.page\<close> before \<open>connect\<close> has been called, or
  after \<open>disconnect\<close>, fails with a plain \<open>Error\<close> whose message is
  "Not connected - call connect() first". It is not a \<open>GeminiError\<close> and carries no code;
  \<open>getErrorGuidance\<close> answers it with the generic text.
\<close>

theorem page_not_connected_plain_error:
  "browser_page (new_client fs t)
     = (Inl (OtherError ''Not connected - call connect() first''), new_client fs t)
   \<and> fst (browser_page (snd (browser_disconnect (snd (browser_connect env hl (new_client fs t))))))
     = Inl (OtherError ''Not connected - call connect() first'')
   \<and> \<not> isGeminiError (OtherError ''Not connected - call connect() first'')
   \<and> getErrorGuidance (OtherError ''Not connected - call connect() first'')
     = ''An unexpected error occurred. Please try again.''"
  by (simp add: browser_page_def new_client_def browser_disconnect_def browser_connect_def
      js_defs unexpected_text_def)

section \<open>The top-level call\<close>

lemma js_bind_Inr: "m s = (Inr x, s1) \<Longrightarrow> js_bind m f s = f x s1"
  by (simp add: js_bind_def)

lemma js_bind_Inl: "m s = (Inl e, s1) \<Longrightarrow> js_bind m f s = (Inl e, s1)"
  by (simp add: js_bind_def)

lemma browser_connect_ok:
  "launch_ok env \<Longrightarrow>
     browser_connect env hl s
       = (Inr (), s\<lparr>context_open := True, page_open := True,
                    trace := trace s @ Launch (case hl of None \<Rightarrow> False | Some b \<Rightarrow> b)
                               # replicate (stale_pages env) ClosePage @ [NewPage]\<rparr>)"
  by (simp add: browser_connect_def js_defs)

lemma browser_connect_fails:
  "\<not> launch_ok env \<Longrightarrow>
     browser_connect env hl s
       = (Inl (OtherError ''browserType.launchPersistentContext failed''),
          s\<lparr>trace := trace s @ [Launch (case hl of None \<Rightarrow> False | Some b \<Rightarrow> b)]\<rparr>)"
  by (simp add: browser_connect_def js_defs)

lemma keeps_connect_tail:
  "keeps_session (js_bind browser_page (\<lambda>_.
     js_bind (page_goto (connect_goto_ok env)) (\<lambda>_.
     js_bind (waitForTimeout 3000) (\<lambda>_.
     js_bind (handleCookieConsent env) (\<lambda>_.
     ensureLoggedIn env)))))"
  by (intro keeps_bind) simp_all

lemma client_connect_effect:
  "(\<exists>evs. trace (snd (client_connect env hl s))
            = trace s @ Launch (case hl of None \<Rightarrow> False | Some b \<Rightarrow> b) # evs)
   \<and> (if launch_ok env
      then context_open (snd (client_connect env hl s)) \<and> page_open (snd (client_connect env hl s))
      else context_open (snd (client_connect env hl s)) = context_open s
           \<and> page_open (snd (client_connect env hl s)) = page_open s
           \<and> fst (client_connect env hl s)
               = Inl (OtherError ''browserType.launchPersistentContext failed''))"
proof (cases "launch_ok env")
  case False
  then show ?thesis
    by (simp add: client_connect_def js_bind_Inl [OF browser_connect_fails])
next
  case True
  let ?s1 = "s\<lparr>context_open := True, page_open := True,
                    trace := trace s @ Launch (case hl of None \<Rightarrow> False | Some b \<Rightarrow> b)
                               # replicate (stale_pages env) ClosePage @ [NewPage]\<rparr>"
  let ?tail = "js_bind browser_page (\<lambda>_.
     js_bind (page_goto (connect_goto_ok env)) (\<lambda>_.
     js_bind (waitForTimeout 3000) (\<lambda>_.
     js_bind (handleCookieConsent env) (\<lambda>_.
     ensureLoggedIn env))))"
  have run: "client_connect env hl s = ?tail ?s1"
    unfolding client_connect_def by (rule js_bind_Inr [OF browser_connect_ok [OF True]])
  have k: "context_open (snd (?tail ?s1)) = context_open ?s1"
      "page_open (snd (?tail ?s1)) = page_open ?s1"
      "\<exists>evs. trace (snd (?tail ?s1)) = trace ?s1 @ evs"
    using keeps_sessionD [OF keeps_connect_tail, of env ?s1] by blast+
  from k(3) obtain evs where "trace (snd (?tail ?s1)) = trace ?s1 @ evs" by blast
  then have "trace (snd (?tail ?s1))
      = trace s @ Launch (case hl of None \<Rightarrow> False | Some b \<Rightarrow> b)
          # (replicate (stale_pages env) ClosePage @ [NewPage] @ evs)" by simp
  then have "\<exists>evs. trace (snd (?tail ?s1))
      = trace s @ Launch (case hl of None \<Rightarrow> False | Some b \<Rightarrow> b) # evs" by blast
  then show ?thesis using True k(1,2) unfolding run by simp
qed

text \<open>The body of the \<open>try\<close> block of the top-level entry point.\<close>

lemma try_body_effect:
  fixes senv penv prompt out options
  defines "body \<equiv> js_bind (client_connect senv (headless options))
                       (\<lambda>_. client_generateImage penv prompt out options)"
  shows "(\<exists>evs. trace (snd (body s))
            = trace s @ Launch (case headless options of None \<Rightarrow> False | Some b \<Rightarrow> b) # evs)
   \<and> (if launch_ok senv then context_open (snd (body s))
      else context_open (snd (body s)) = context_open s \<and> page_open (snd (body s)) = page_open s)"
proof (cases "client_connect senv (headless options) s")
  case (Pair r s1)
  have c: "\<exists>evs. trace s1 = trace s @ Launch (case headless options of None \<Rightarrow> False | Some b \<Rightarrow> b) # evs"
      "if launch_ok senv then context_open s1 \<and> page_open s1
       else context_open s1 = context_open s \<and> page_open s1 = page_open s"
    using client_connect_effect [of senv "headless options" s] Pair by (simp_all split: if_splits)
  show ?thesis
  proof (cases r)
    case (Inl e)
    then have "body s = (Inl e, s1)" using Pair by (simp add: body_def js_bind_def)
    then show ?thesis using c by (simp split: if_splits)
  next
    case (Inr u)
    then have run: "body s = client_generateImage penv prompt out options s1"
      using Pair by (simp add: body_def js_bind_def)
    have k: "context_open (snd (client_generateImage penv prompt out options s1)) = context_open s1"
      "page_open (snd (client_generateImage penv prompt out options s1)) = page_open s1"
      "\<exists>evs. trace (snd (client_generateImage penv prompt out options s1)) = trace s1 @ evs"
      using keeps_sessionD [OF keeps_client_generateImage, of penv prompt out options s1] by blast+
    from c(1) k(3) have "\<exists>evs. trace (snd (client_generateImage penv prompt out options s1))
        = trace s @ Launch (case headless options of None \<Rightarrow> False | Some b \<Rightarrow> b) # evs"
      by auto
    then show ?thesis using c(2) k(1,2) unfolding run by (simp split: if_splits)
  qed
qed

lemma generateImage_finally:
  "generateImage senv penv prompt out options s
     = (fst (js_bind (client_connect senv (headless options))
               (\<lambda>_. client_generateImage penv prompt out options) s),
        snd (browser_disconnect (snd (js_bind (client_connect senv (headless options))
               (\<lambda>_. client_generateImage penv prompt out options) s))))"
  by (simp add: generateImage_def js_finally_def browser_disconnect_def split: prod.splits)


text \<open>
  Claim C6 does not hold of the code: when the \<open>headless\<close> option is omitted, the top-level
  \<open>generateImage\<close> launches the browser with \<open>headless: false\<close>, that is, visible. Whatever
  the environment, the first thing a call without the option does is that launch.
\<close>

theorem headless_omitted_launches_visible:
  "\<exists>evs. trace (snd (generateImage senv penv prompt out (options\<lparr>headless := None\<rparr>)
                       (new_client fs t)))
          = Launch False # evs"
proof -
  let ?o = "options\<lparr>headless := None\<rparr>"
  let ?s = "new_client fs t"
  let ?b = "js_bind (client_connect senv (headless ?o)) (\<lambda>_. client_generateImage penv prompt out ?o)"
  obtain evs where e: "trace (snd (?b ?s)) = Launch False # evs"
    using try_body_effect [where s = ?s and senv = senv and options = ?o and penv = penv
        and prompt = prompt and out = out]
    by (auto simp: new_client_def)
  have "trace (snd (browser_disconnect (snd (?b ?s))))
          = Launch False # (evs @ (if context_open (snd (?b ?s)) then [CloseContext] else []))"
    unfolding browser_disconnect_def using e by (cases "context_open (snd (?b ?s))") auto
  then show ?thesis
    unfolding generateImage_finally by auto
qed

text \<open>Runs of the whole call: a success and a failure of each kind.\<close>

lemmas eval_defs = run_defs js_defs example_defs Let_def gen_wait_loop.simps
  download_loop_two_attempts

lemma happy_run:
  "fst (generateImage ok_session happy_page ''a red circle'' ''out.png'' no_options
          (new_client Map.empty 0))
     = Inr \<lparr>width = 2, height = 3, imagePath = ''/work/out.png''\<rparr>"
  by (simp add: eval_defs)

lemma never_login_loop:
  "login_loop (\<lambda>k. signin_page) 0 s
     = (Inl (AuthenticationError ''Login timeout after 5 minutes.''),
        s\<lparr>now := now s + 300000, trace := trace s @ replicate 60 (Wait 5000)\<rparr>)"
  using login_loop_timeout [of 0 "\<lambda>k. signin_page" s] by (simp add: example_not_ready)

lemma auth_failure_run:
  "fst (generateImage never_login_session happy_page ''a red circle'' ''out.png'' no_options
          (new_client Map.empty 0))
     = Inl (AuthenticationError ''Login timeout after 5 minutes.'')"
  by (simp add: generateImage_finally client_connect_def browser_connect_def browser_page_def
      page_goto_def handleCookieConsent_def ensureLoggedIn_def logged_in_check_def js_defs
      never_login_session_def ok_session_def no_options_def new_client_def never_login_loop)
     (simp add: signin_page_def never_login_loop js_defs)

lemma generation_failure_run:
  "fst (generateImage ok_session refusing_page ''a red circle'' ''out.png'' no_options
          (new_client Map.empty 0))
     = Inl (GenerationError ''Gemini refused to generate this image. Try a different prompt.'')"
  by (simp add: eval_defs)

lemma browser_failure_run:
  "fst (generateImage no_launch_session happy_page ''a red circle'' ''out.png'' no_options
          (new_client Map.empty 0))
     = Inl (OtherError ''browserType.launchPersistentContext failed'')"
  by (simp add: eval_defs)

text \<open>
  Claim C8: the top-level \<open>generateImage\<close> closes the browser context on every exit path.
  Whether the call returns a result or ends in an error of any kind, raised at any step,
  \<open>disconnect\<close> runs before the call completes: afterwards no context is open, a context
  that was launched has been closed as the very last action, and the result or error of
  the call is that of the \<open>try\<close> block.
\<close>

theorem generateImage_always_disconnects:
  "\<not> context_open (snd (generateImage senv penv prompt out options s))
   \<and> (launch_ok senv
        \<longrightarrow> last (trace (snd (generateImage senv penv prompt out options s))) = CloseContext
          \<and> \<not> page_open (snd (generateImage senv penv prompt out options s)))
   \<and> fst (generateImage senv penv prompt out options s)
       = fst (js_bind (client_connect senv (headless options))
                (\<lambda>_. client_generateImage penv prompt out options) s)"
  using try_body_effect [where s = s and senv = senv and options = options and penv = penv
      and prompt = prompt and out = out]
  by (auto simp: generateImage_finally browser_disconnect_def)

theorem generateImage_always_disconnects_witness:
  "launch_ok ok_session
   \<and> fst (generateImage ok_session happy_page ''a red circle'' ''out.png'' no_options
            (new_client Map.empty 0))
       = Inr \<lparr>width = 2, height = 3, imagePath = ''/work/out.png''\<rparr>
   \<and> last (trace (snd (generateImage ok_session happy_page ''a red circle'' ''out.png'' no_options
            (new_client Map.empty 0)))) = CloseContext
   \<and> launch_ok never_login_session
   \<and> fst (generateImage never_login_session happy_page ''a red circle'' ''out.png'' no_options
            (new_client Map.empty 0))
       = Inl (AuthenticationError ''Login timeout after 5 minutes.'')
   \<and> last (trace (snd (generateImage never_login_session happy_page ''a red circle'' ''out.png''
            no_options (new_client Map.empty 0)))) = CloseContext
   \<and> fst (generateImage ok_session refusing_page ''a red circle'' ''out.png'' no_options
            (new_client Map.empty 0))
       = Inl (GenerationError ''Gemini refused to generate this image. Try a different prompt.'')
   \<and> last (trace (snd (generateImage ok_session refusing_page ''a red circle'' ''out.png''
            no_options (new_client Map.empty 0)))) = CloseContext
   \<and> fst (generateImage no_launch_session happy_page ''a red circle'' ''out.png'' no_options
            (new_client Map.empty 0))
       = Inl (OtherError ''browserType.launchPersistentContext failed'')
   \<and> \<not> context_open (snd (generateImage no_launch_session happy_page ''a red circle''
            ''out.png'' no_options (new_client Map.empty 0)))"
proof -
  have l: "launch_ok ok_session" "launch_ok never_login_session"
    by (simp_all add: ok_session_def never_login_session_def)
  show ?thesis
    using generateImage_always_disconnects [of ok_session happy_page "''a red circle''"
            "''out.png''" no_options "new_client Map.empty 0"]
          generateImage_always_disconnects [of never_login_session happy_page "''a red circle''"
            "''out.png''" no_options "new_client Map.empty 0"]
          generateImage_always_disconnects [of ok_session refusing_page "''a red circle''"
            "''out.png''" no_options "new_client Map.empty 0"]
          generateImage_always_disconnects [of no_launch_session happy_page "''a red circle''"
            "''out.png''" no_options "new_client Map.empty 0"]
          l happy_run auth_failure_run generation_failure_run browser_failure_run
    by simp
qed

section \<open>The submitted prompt\<close>

lemma js_bind_trace:
  assumes "m s = (Inr x, s1)" and "keeps_session (f x)"
  shows "\<exists>evs. trace (snd (js_bind m f s)) = trace s1 @ evs"
  using keeps_sessionD(3) [OF assms(2), of s1] by (simp add: js_bind_Inr [where m = m and s = s, OF assms(1)])

text \<open>What submitting the prompt does to the page, event by event.\<close>

lemma submit_prompt_trace:
  assumes "gen_goto_ok env" and "\<not> input_fails env"
  shows "\<exists>s1. submit_prompt env text s = (Inr (), s1)
     \<and> trace s1 = trace s @ [Goto ''https://gemini.google.com/app'', Wait 3000]
          @ (if overlay_visible env \<and> \<not> overlay_click_fails env
             then [Click ''human-review-disclosure button'', Wait 500] else [])
          @ [Click ''div[contenteditable=true]'', Fill text, Wait 500, Press ''Enter'']"
  using assms
  unfolding submit_prompt_def
  by (cases "overlay_visible env"; cases "overlay_click_fails env")
     (simp_all add: page_goto_def dismissOverlays_def fill_input_def js_defs)

lemma client_generateImage_after_submit:
  assumes "page_open s"
    and "submit_prompt env (fullPrompt prompt options) s = (Inr (), s1)"
  shows "\<exists>evs. trace (snd (client_generateImage env prompt outputPath options s)) = trace s1 @ evs"
proof -
  have bp: "browser_page s = (Inr (), s)"
    using assms(1) by (simp add: browser_page_def)
  show ?thesis
    unfolding client_generateImage_def Let_def
    by (subst js_bind_Inr [where m = browser_page and s = s, OF bp],
        rule js_bind_trace [where m = "submit_prompt env (fullPrompt prompt options)" and s = s, OF assms(2)], intro keeps_bind keeps_if)
       simp_all
qed

text \<open>
  Claim C10: an empty \<open>aspectRatio\<close> is treated exactly like an omitted one. The prompt
  text is the fixed prefix "Generate an image: " followed by the user's prompt, with nothing
  appended, and the whole call is the same function of the state in both cases. On a
  connected client whose page loads and whose input field takes the text, this is the very
  text typed into the field: after the navigation and the dismissal of an overlay, the
  field is clicked, filled with the prefix and the prompt, and Enter is pressed.
\<close>

theorem empty_aspectRatio_like_omitted:
  "fullPrompt prompt (options\<lparr>aspectRatio := Some ''''\<rparr>) = ''Generate an image: '' @ prompt
   \<and> fullPrompt prompt (options\<lparr>aspectRatio := None\<rparr>) = ''Generate an image: '' @ prompt
   \<and> client_generateImage env prompt outputPath (options\<lparr>aspectRatio := Some ''''\<rparr>)
       = client_generateImage env prompt outputPath (options\<lparr>aspectRatio := None\<rparr>)
   \<and> (page_open s \<and> gen_goto_ok env \<and> \<not> input_fails env
        \<longrightarrow> (\<exists>evs. trace (snd (client_generateImage env prompt outputPath
                                   (options\<lparr>aspectRatio := Some ''''\<rparr>) s))
                    = trace s @ [Goto ''https://gemini.google.com/app'', Wait 3000]
                        @ (if overlay_visible env \<and> \<not> overlay_click_fails env
                           then [Click ''human-review-disclosure button'', Wait 500] else [])
                        @ [Click ''div[contenteditable=true]'',
                           Fill (''Generate an image: '' @ prompt), Wait 500, Press ''Enter'']
                        @ evs))"
proof (intro conjI impI)
  show e1: "fullPrompt prompt (options\<lparr>aspectRatio := Some ''''\<rparr>) = ''Generate an image: '' @ prompt"
    by (simp add: fullPrompt_def)
  show "fullPrompt prompt (options\<lparr>aspectRatio := None\<rparr>) = ''Generate an image: '' @ prompt"
    by (simp add: fullPrompt_def)
  show "client_generateImage env prompt outputPath (options\<lparr>aspectRatio := Some ''''\<rparr>)
       = client_generateImage env prompt outputPath (options\<lparr>aspectRatio := None\<rparr>)"
    by (simp add: fullPrompt_def client_generateImage_def)
  assume a: "page_open s \<and> gen_goto_ok env \<and> \<not> input_fails env"
  let ?o = "options\<lparr>aspectRatio := Some ''''\<rparr>"
  obtain s1 where s1: "submit_prompt env (fullPrompt prompt ?o) s = (Inr (), s1)"
    and t1: "trace s1 = trace s @ [Goto ''https://gemini.google.com/app'', Wait 3000]
          @ (if overlay_visible env \<and> \<not> overlay_click_fails env
             then [Click ''human-review-disclosure button'', Wait 500] else [])
          @ [Click ''div[contenteditable=true]'', Fill (fullPrompt prompt ?o), Wait 500,
             Press ''Enter'']"
    using submit_prompt_trace [of env "fullPrompt prompt ?o" s] a by blast
  obtain evs where "trace (snd (client_generateImage env prompt outputPath ?o s)) = trace s1 @ evs"
    using client_generateImage_after_submit [OF _ s1] a by blast
  then have "trace (snd (client_generateImage env prompt outputPath ?o s))
      = trace s @ [Goto ''https://gemini.google.com/app'', Wait 3000]
          @ (if overlay_visible env \<and> \<not> overlay_click_fails env
             then [Click ''human-review-disclosure button'', Wait 500] else [])
          @ [Click ''div[contenteditable=true]'', Fill (''Generate an image: '' @ prompt),
             Wait 500, Press ''Enter''] @ evs"
    unfolding t1 e1 by simp
  then show "\<exists>evs. trace (snd (client_generateImage env prompt outputPath ?o s))
      = trace s @ [Goto ''https://gemini.google.com/app'', Wait 3000]
          @ (if overlay_visible env \<and> \<not> overlay_click_fails env
             then [Click ''human-review-disclosure button'', Wait 500] else [])
          @ [Click ''div[contenteditable=true]'', Fill (''Generate an image: '' @ prompt),
             Wait 500, Press ''Enter''] @ evs"
    by blast
qed

theorem empty_aspectRatio_like_omitted_witness:
  "page_open connected \<and> gen_goto_ok happy_page \<and> \<not> input_fails happy_page
   \<and> take 6 (trace (snd (client_generateImage happy_page ''a red circle'' ''out.png''
                          (no_options\<lparr>aspectRatio := Some ''''\<rparr>) connected)))
     = [Goto ''https://gemini.google.com/app'', Wait 3000, Click ''div[contenteditable=true]'',
        Fill ''Generate an image: a red circle'', Wait 500, Press ''Enter'']"
proof -
  have a: "page_open connected" "gen_goto_ok happy_page" "\<not> input_fails happy_page"
    "\<not> overlay_visible happy_page" "trace connected = []"
    by (simp_all add: connected_def happy_page_def)
  show ?thesis
    using empty_aspectRatio_like_omitted [of "''a red circle''" no_options happy_page "''out.png''"
            connected] a
    by auto
qed

section \<open>The download trigger in the whole call\<close>

text \<open>
  A first click that triggers no download is followed, after 2 seconds, by a second
  attempt, whose download is saved at the resolved path; two attempts without a download
  end the call.
\<close>

lemma second_attempt_downloads:
  "fst (client_generateImage retry_page ''a red circle'' ''out.png'' no_options connected)
     = Inr \<lparr>width = 2, height = 3, imagePath = ''/work/out.png''\<rparr>
   \<and> files (snd (client_generateImage retry_page ''a red circle'' ''out.png'' no_options
                   connected)) ''/work/out.png'' = Some png_2x3
   \<and> drop 9 (trace (snd (client_generateImage retry_page ''a red circle'' ''out.png''
                         no_options connected)))
     = [WaitForEvent ''download'' 30000,
        Click ''[data-test-id=download-generated-image-button]'', Wait 2000,
        WaitForEvent ''download'' 30000,
        Click ''[data-test-id=download-generated-image-button]'', SaveAs ''/work/out.png'']"
  by (simp add: eval_defs)

lemma two_dead_attempts_fail:
  "fst (client_generateImage dead_page ''a red circle'' ''out.png'' no_options connected)
     = Inl (GenerationError ''Download button did not trigger a file download'')
   \<and> drop 9 (trace (snd (client_generateImage dead_page ''a red circle'' ''out.png''
                         no_options connected)))
     = [WaitForEvent ''download'' 30000,
        Click ''[data-test-id=download-generated-image-button]'', Wait 2000,
        WaitForEvent ''download'' 30000,
        Click ''[data-test-id=download-generated-image-button]'']"
  by (simp add: eval_defs)

text \<open>
  Claim C4 is not met by the code. \<open>clickDownloadButton\<close> does throw a GENERATION_ERROR
  with the message "Could not find download button" when neither the designated control
  nor the fallback is visible, but the retry loop of \<open>generateImage\<close> catches every error of
  an attempt, this one included: the call retries once and then fails with the message
  "Download button did not trigger a file download". The distinct message never reaches
  the caller. The rest of the claim holds: \<open>download_loop_two_attempts\<close> shows the two
  attempts and the pause of 2 seconds between them.
\<close>

theorem missing_download_control_message_lost:
  "fst (clickDownloadButton no_control connected)
     = Inl (GeminiError ''GenerationError'' ''Could not find download button'' ''GENERATION_ERROR'')
   \<and> fst (client_generateImage vanishing_button_page ''a red circle'' ''out.png'' no_options
            connected)
     = Inl (GeminiError ''GenerationError'' ''Download button did not trigger a file download''
              ''GENERATION_ERROR'')"
  by (simp add: eval_defs GenerationError_def)

section \<open>Watermark removal\<close>

lemma removeWatermark_without_script:
  "files s (remover_script h) = None \<Longrightarrow> removeWatermark h p s = (Inr (), s)"
  by (simp add: removeWatermark_def existsSync_def js_defs)

text \<open>
  As long as \<open>fs.unlinkSync\<close> does not throw, the function returns normally: a failure of
  the tool, or of the rename, ends in the cleanup, which removes the temporary output and
  leaves every other file as it was; a run of the tool that leaves its output, followed by
  a rename that works, puts the output in the place of the original.
\<close>

lemma removeWatermark_returns:
  "unlink_error h = None \<Longrightarrow> fst (removeWatermark h p s) = Inr ()"
  by (cases "tool_error (tool h)"; cases "tool_output (tool h)"; cases "rename_error h")
     (auto simp: removeWatermark_def existsSync_def execFileAsync_def renameSync_def
        unlinkSync_def js_defs Let_def)

lemma removeWatermark_tool_failure:
  "unlink_error h = None \<Longrightarrow> files s (remover_script h) \<noteq> None \<Longrightarrow>
   tool_error (tool h) \<noteq> None \<Longrightarrow>
     files (snd (removeWatermark h p s)) = (files s)(p @ ''.clean.png'' := None)
     \<and> files (snd (removeWatermark h p s)) p = files s p"
  by (cases "tool_error (tool h)"; cases "tool_output (tool h)")
     (auto simp: removeWatermark_def existsSync_def execFileAsync_def renameSync_def
        unlinkSync_def js_defs Let_def)

lemma removeWatermark_success:
  "files s (remover_script h) \<noteq> None \<Longrightarrow> tool_error (tool h) = None \<Longrightarrow>
   tool_output (tool h) = Some cleaned \<Longrightarrow> rename_error h = None \<Longrightarrow>
     fst (removeWatermark h p s) = Inr ()
     \<and> files (snd (removeWatermark h p s)) = (files s)(p \<mapsto> cleaned, p @ ''.clean.png'' := None)
     \<and> last (trace (snd (removeWatermark h p s))) = Rename (p @ ''.clean.png'') p"
  by (auto simp: removeWatermark_def existsSync_def execFileAsync_def renameSync_def
        unlinkSync_def js_defs Let_def)

text \<open>The only error that leaves the function is the one of \<open>fs.unlinkSync\<close>.\<close>

lemma removeWatermark_throws_only_unlink:
  "fst (removeWatermark h p s) = Inl e \<Longrightarrow> unlink_error h = Some msg \<Longrightarrow> e = OtherError msg"
  by (cases "tool_error (tool h)"; cases "tool_output (tool h)"; cases "rename_error h")
     (auto simp: removeWatermark_def existsSync_def execFileAsync_def renameSync_def
        unlinkSync_def js_defs Let_def split: if_splits)

text \<open>The whole call with a failing tool and with a working one.\<close>

lemma failing_tool_run_still_succeeds:
  "fst (client_generateImage failing_tool_page ''a red circle'' ''out.png'' no_options
          connected_with_tool)
     = Inr \<lparr>width = 2, height = 3, imagePath = ''/work/out.png''\<rparr>
   \<and> files (snd (client_generateImage failing_tool_page ''a red circle'' ''out.png'' no_options
          connected_with_tool)) ''/work/out.png'' = Some png_2x3
   \<and> files (snd (client_generateImage failing_tool_page ''a red circle'' ''out.png'' no_options
          connected_with_tool)) ''/work/out.png.clean.png'' = None"
  by (simp add: eval_defs)

lemma cleaning_tool_run_replaces:
  "fst (client_generateImage cleaning_tool_page ''a red circle'' ''out.png'' no_options
          connected_with_tool)
     = Inr \<lparr>width = 7, height = 5, imagePath = ''/work/out.png''\<rparr>
   \<and> files (snd (client_generateImage cleaning_tool_page ''a red circle'' ''out.png'' no_options
          connected_with_tool)) ''/work/out.png'' = Some jpeg_7x5"
  by (simp add: eval_defs sof0_scan.simps)

text \<open>
  Claim C5 fails on the cleanup: \<open>fs.unlinkSync\<close> is called inside the catch block with
  nothing around it, so when the tool fails while the temporary path exists and cannot be
  unlinked, the error of \<open>fs.unlinkSync\<close> leaves \<open>removeWatermark\<close> and the whole
  generation call fails with it, although the image has been downloaded and saved.
\<close>

theorem removeWatermark_cleanup_failure_escapes:
  "fst (removeWatermark blocked_host ''/work/out.png'' connected_blocked)
     = Inl (OtherError ''EISDIR: illegal operation on a directory, unlink'')
   \<and> fst (client_generateImage blocked_page ''a red circle'' ''out.png'' no_options
            connected_blocked)
     = Inl (OtherError ''EISDIR: illegal operation on a directory, unlink'')
   \<and> files (snd (client_generateImage blocked_page ''a red circle'' ''out.png'' no_options
            connected_blocked)) ''/work/out.png'' = Some png_2x3"
  by (simp add: eval_defs)

section \<open>Image dimensions\<close>

declare sof0_scan.simps [simp del]

lemma length_read_header [simp]: "length (read_header bytes) = 24"
  by (simp add: read_header_def)

lemma read_header_padded: "read_header bytes = take 24 (bytes @ replicate 24 0)"
  by (simp add: read_header_def min_def)

lemma header_check_iff:
  "(read_header bytes ! 0 = 0x89 \<and> read_header bytes ! 1 = 0x50)
     \<longleftrightarrow> take 2 bytes = [0x89, 0x50]"
proof (cases bytes)
  case Nil
  then show ?thesis by (simp add: read_header_def)
next
  case (Cons a rest)
  then show ?thesis
    by (cases rest) (auto simp: read_header_def)
qed

lemma take4_drop:
  "n + 4 \<le> length xs \<Longrightarrow>
     take 4 (drop n xs) = [xs ! n, xs ! (n + 1), xs ! (n + 2), xs ! (n + 3)]"
  by (auto simp: list_eq_iff_nth_eq nth_Cons' less_Suc_eq numeral_eq_Suc)

lemma take2_drop:
  "n + 2 \<le> length xs \<Longrightarrow> take 2 (drop n xs) = [xs ! n, xs ! (n + 1)]"
  by (auto simp: list_eq_iff_nth_eq nth_Cons' less_Suc_eq numeral_eq_Suc)

lemma readUInt32BE_value:
  "off + 4 \<le> length buf \<Longrightarrow> readUInt32BE buf off = Inr (be_value (take 4 (drop off buf)))"
  by (simp add: readUInt32BE_def take4_drop be_value_def)

lemma readUInt16BE_value:
  "off + 2 \<le> length buf \<Longrightarrow> readUInt16BE buf off = Inr (be_value (take 2 (drop off buf)))"
  by (simp add: readUInt16BE_def take2_drop be_value_def)

lemma sof0_scan_hit:
  "i \<le> n \<Longrightarrow> n + 9 < length buf \<Longrightarrow> sof0_pair buf n \<Longrightarrow>
   (\<forall>j<n. i \<le> j \<longrightarrow> \<not> sof0_pair buf j) \<Longrightarrow>
     sof0_scan buf i
       = Inr (Some \<lparr>width = be_value (take 2 (drop (n + 7) buf)),
                    height = be_value (take 2 (drop (n + 5) buf))\<rparr>)"
proof (induction "n - i" arbitrary: i)
  case 0
  then have "i = n" by simp
  then show ?case
    using "0.prems"(2,3)
    by (subst sof0_scan.simps) (simp add: sof0_pair_def readUInt16BE_value)
next
  case (Suc m)
  then have lt: "i < n" by simp
  then have no: "\<not> sof0_pair buf i" using Suc.prems(4) by simp
  have "sof0_scan buf i = sof0_scan buf (i + 1)"
    using lt Suc.prems(2) no by (subst sof0_scan.simps) (auto simp: sof0_pair_def)
  also have "\<dots> = Inr (Some \<lparr>width = be_value (take 2 (drop (n + 7) buf)),
                    height = be_value (take 2 (drop (n + 5) buf))\<rparr>)"
    using Suc.hyps(1) [of "i + 1"] Suc.hyps(2) lt Suc.prems(2,3,4) by simp
  finally show ?case .
qed

lemma sof0_scan_miss:
  "(\<forall>j. i \<le> j \<and> j + 9 < length buf \<longrightarrow> \<not> sof0_pair buf j) \<Longrightarrow> sof0_scan buf i = Inr None"
proof (induction "length buf - i" arbitrary: i)
  case 0
  then show ?case by (subst sof0_scan.simps) simp
next
  case (Suc m)
  show ?case
  proof (cases "i + 9 < length buf")
    case False
    then show ?thesis by (subst sof0_scan.simps) simp
  next
    case True
    then have no: "\<not> sof0_pair buf i" using Suc.prems by simp
    have "sof0_scan buf i = sof0_scan buf (i + 1)"
      using True no by (subst sof0_scan.simps) (auto simp: sof0_pair_def)
    also have "\<dots> = Inr None"
      using Suc.hyps(1) [of "i + 1"] Suc.hyps(2) Suc.prems by simp
    finally show ?thesis .
  qed
qed

text \<open>The \<open>try\<close> block throws only when the file cannot be read.\<close>

lemma dimensions_try_png:
  "fs p = Some bytes \<Longrightarrow> take 2 bytes = [0x89, 0x50] \<Longrightarrow>
     dimensions_try fs p
       = Inr (Some \<lparr>width = be_value (take 4 (drop 16 (bytes @ replicate 24 0))),
                    height = be_value (take 4 (drop 20 (bytes @ replicate 24 0)))\<rparr>)"
proof -
  assume a: "fs p = Some bytes" "take 2 bytes = [0x89, 0x50]"
  have h: "read_header bytes ! 0 = 0x89 \<and> read_header bytes ! 1 = 0x50"
    using a(2) header_check_iff [of bytes] by blast
  have w: "take 4 (drop 16 (read_header bytes)) = take 4 (drop 16 (bytes @ replicate 24 0))"
    by (simp add: read_header_padded drop_take)
  have hh: "take 4 (drop 20 (read_header bytes)) = take 4 (drop 20 (bytes @ replicate 24 0))"
    by (simp add: read_header_padded drop_take)
  have r1: "readUInt32BE (read_header bytes) 16
      = Inr (be_value (take 4 (drop 16 (read_header bytes))))"
    by (rule readUInt32BE_value) simp
  have r2: "readUInt32BE (read_header bytes) 20
      = Inr (be_value (take 4 (drop 20 (read_header bytes))))"
    by (rule readUInt32BE_value) simp
  have "dimensions_try fs p
      = (case readUInt32BE (read_header bytes) 16 of
           Inl err \<Rightarrow> Inl err
         | Inr w \<Rightarrow> (case readUInt32BE (read_header bytes) 20 of
                      Inl err \<Rightarrow> Inl err
                    | Inr h \<Rightarrow> Inr (Some \<lparr>width = w, height = h\<rparr>)))"
    using a(1) h by (simp add: dimensions_try_def Let_def)
  then show ?thesis
    unfolding r1 r2 w hh by simp
qed

lemma dimensions_try_other:
  "fs p = Some bytes \<Longrightarrow> take 2 bytes \<noteq> [0x89, 0x50] \<Longrightarrow>
     dimensions_try fs p = sof0_scan bytes 0"
  using header_check_iff [of bytes] by (auto simp: dimensions_try_def Let_def)

lemma sof0_scan_returns: "\<exists>r. sof0_scan buf i = Inr r"
proof (induction "length buf - i" arbitrary: i)
  case 0
  then show ?case by (subst sof0_scan.simps) simp
next
  case (Suc m)
  show ?case
  proof (cases "i + 9 < length buf")
    case False
    then show ?thesis by (subst sof0_scan.simps) simp
  next
    case True
    show ?thesis
    proof (cases "sof0_pair buf i")
      case True
      then show ?thesis
        using \<open>i + 9 < length buf\<close>
        by (subst sof0_scan.simps) (simp add: sof0_pair_def readUInt16BE_value)
    next
      case False
      have "sof0_scan buf i = sof0_scan buf (i + 1)"
        using True False by (subst sof0_scan.simps) (auto simp: sof0_pair_def)
      then show ?thesis
        using Suc.hyps(1) [of "i + 1"] Suc.hyps(2) by simp
    qed
  qed
qed

text \<open>No read is out of range: the \<open>try\<close> block throws only when the file cannot be read.\<close>

lemma dimensions_try_returns: "fs p = Some bytes \<Longrightarrow> \<exists>r. dimensions_try fs p = Inr r"
  using dimensions_try_png [of fs p bytes] dimensions_try_other [of fs p bytes]
        sof0_scan_returns [of bytes 0]
  by (cases "take 2 bytes = [0x89, 0x50]") auto
lemma be_value_zeros: "be_value (replicate n 0) = 0"
  by (induction n) (simp_all add: be_value_def)

text \<open>
  Claim C1, as stated, fails in its second half: an input that is neither a PNG header nor
  a JPEG with an SOF0 marker does not always give \<open>{width: 0, height: 0}\<close>. The inspector
  compares only the first two bytes with the PNG signature, so 24 bytes that begin with
  0x89 0x50 and are no PNG give whatever stands at offsets 16 and 20; and a PNG cut off
  after 20 bytes gives its width with height 0.
\<close>

theorem getImageDimensions_fake_png_counterexample:
  "take 8 fake_png \<noteq> png_signature \<and> 0xFF \<notin> set fake_png \<and> length fake_png = 24
   \<and> getImageDimensions [''f'' \<mapsto> fake_png] ''f'' = \<lparr>width = 1, height = 1\<rparr>
   \<and> getImageDimensions [''f'' \<mapsto> take 20 png_2x3] ''f'' = \<lparr>width = 2, height = 0\<rparr>"
  by (simp add: fake_png_def png_signature_def png_2x3_def getImageDimensions_def
      dimensions_try_def read_header_def readUInt32BE_def Let_def)

text \<open>
  Claim C1, amended: \<open>getImageDimensions\<close> never raises, and returns the following. If the
  file cannot be read: \<open>{0, 0}\<close>. If its first two bytes are 0x89 0x50 (as in every PNG):
  the big-endian 32-bit numbers at byte offsets 16 and 20, which for a file of at least 24
  bytes are the encoded width and height of a PNG header, and for a shorter file are read
  from the file padded with zero bytes. Otherwise, if the bytes 0xFF 0xC0 occur at an index
  \<open>n\<close> with \<open>n + 9\<close> below the length: for the first such \<open>n\<close>, the big-endian 16-bit
  numbers at \<open>n + 7\<close> (width) and \<open>n + 5\<close> (height), which are the encoded dimensions of a
  JPEG whose first such byte pair is its SOF0 marker. Otherwise \<open>{0, 0}\<close>.
\<close>

theorem getImageDimensions_reads_headers:
  "(fs p = None \<longrightarrow> getImageDimensions fs p = \<lparr>width = 0, height = 0\<rparr>)
   \<and> (fs p = Some bytes \<and> take 2 bytes = [0x89, 0x50] \<and> 24 \<le> length bytes
        \<longrightarrow> getImageDimensions fs p
              = \<lparr>width = be_value (take 4 (drop 16 bytes)),
                 height = be_value (take 4 (drop 20 bytes))\<rparr>)
   \<and> (fs p = Some bytes \<and> take 2 bytes = [0x89, 0x50] \<and> length bytes < 24
        \<longrightarrow> getImageDimensions fs p
              = \<lparr>width = be_value (take 4 (drop 16 (bytes @ replicate 24 0))),
                 height = be_value (take 4 (drop 20 (bytes @ replicate 24 0)))\<rparr>)
   \<and> (fs p = Some bytes \<and> take 2 bytes \<noteq> [0x89, 0x50] \<and> n + 9 < length bytes
          \<and> sof0_pair bytes n \<and> (\<forall>j<n. \<not> sof0_pair bytes j)
        \<longrightarrow> getImageDimensions fs p
              = \<lparr>width = be_value (take 2 (drop (n + 7) bytes)),
                 height = be_value (take 2 (drop (n + 5) bytes))\<rparr>)
   \<and> (fs p = Some bytes \<and> take 2 bytes \<noteq> [0x89, 0x50]
          \<and> (\<forall>j. j + 9 < length bytes \<longrightarrow> \<not> sof0_pair bytes j)
        \<longrightarrow> getImageDimensions fs p = \<lparr>width = 0, height = 0\<rparr>)"
proof (intro conjI impI)
  assume "fs p = None"
  then show "getImageDimensions fs p = \<lparr>width = 0, height = 0\<rparr>"
    by (simp add: getImageDimensions_def dimensions_try_def)
next
  assume a: "fs p = Some bytes \<and> take 2 bytes = [0x89, 0x50] \<and> 24 \<le> length bytes"
  then show "getImageDimensions fs p
              = \<lparr>width = be_value (take 4 (drop 16 bytes)),
                 height = be_value (take 4 (drop 20 bytes))\<rparr>"
    by (simp add: getImageDimensions_def dimensions_try_png)
next
  assume a: "fs p = Some bytes \<and> take 2 bytes = [0x89, 0x50] \<and> length bytes < 24"
  then show "getImageDimensions fs p
              = \<lparr>width = be_value (take 4 (drop 16 (bytes @ replicate 24 0))),
                 height = be_value (take 4 (drop 20 (bytes @ replicate 24 0)))\<rparr>"
    by (simp add: getImageDimensions_def dimensions_try_png)
next
  assume a: "fs p = Some bytes \<and> take 2 bytes \<noteq> [0x89, 0x50] \<and> n + 9 < length bytes
          \<and> sof0_pair bytes n \<and> (\<forall>j<n. \<not> sof0_pair bytes j)"
  then have "sof0_scan bytes 0
       = Inr (Some \<lparr>width = be_value (take 2 (drop (n + 7) bytes)),
                    height = be_value (take 2 (drop (n + 5) bytes))\<rparr>)"
    using sof0_scan_hit [of 0 n bytes] by simp
  then show "getImageDimensions fs p
              = \<lparr>width = be_value (take 2 (drop (n + 7) bytes)),
                 height = be_value (take 2 (drop (n + 5) bytes))\<rparr>"
    using a by (simp add: getImageDimensions_def dimensions_try_other)
next
  assume a: "fs p = Some bytes \<and> take 2 bytes \<noteq> [0x89, 0x50]
          \<and> (\<forall>j. j + 9 < length bytes \<longrightarrow> \<not> sof0_pair bytes j)"
  then have "sof0_scan bytes 0 = Inr None"
    using sof0_scan_miss [of 0 bytes] by simp
  then show "getImageDimensions fs p = \<lparr>width = 0, height = 0\<rparr>"
    using a by (simp add: getImageDimensions_def dimensions_try_other)
qed

theorem getImageDimensions_reads_headers_witness:
  "getImageDimensions Map.empty ''f'' = \<lparr>width = 0, height = 0\<rparr>
   \<and> take 8 png_2x3 = png_signature
   \<and> getImageDimensions [''f'' \<mapsto> png_2x3] ''f'' = \<lparr>width = 2, height = 3\<rparr>
   \<and> getImageDimensions [''f'' \<mapsto> take 20 png_2x3] ''f'' = \<lparr>width = 2, height = 0\<rparr>
   \<and> sof0_pair jpeg_7x5 2
   \<and> getImageDimensions [''f'' \<mapsto> jpeg_7x5] ''f'' = \<lparr>width = 7, height = 5\<rparr>
   \<and> getImageDimensions [''f'' \<mapsto> plain_text] ''f'' = \<lparr>width = 0, height = 0\<rparr>"
proof -
  have sig: "take 8 png_2x3 = png_signature"
    by (simp add: png_2x3_def png_signature_def)
  have png: "take 2 png_2x3 = [0x89, 0x50]" "24 \<le> length png_2x3"
      "be_value (take 4 (drop 16 png_2x3)) = 2" "be_value (take 4 (drop 20 png_2x3)) = 3"
    by (simp_all add: png_2x3_def be_value_def)
  have cut: "take 2 (take 20 png_2x3) = [0x89, 0x50]" "length (take 20 png_2x3) < 24"
      "be_value (take 4 (drop 16 (take 20 png_2x3 @ replicate 24 0))) = 2"
      "be_value (take 4 (drop 20 (take 20 png_2x3 @ replicate 24 0))) = 0"
    by (simp_all add: png_2x3_def be_value_zeros) (simp add: be_value_def)
  have jpg: "take 2 jpeg_7x5 \<noteq> [0x89, 0x50]" "2 + 9 < length jpeg_7x5" "sof0_pair jpeg_7x5 2"
      "be_value (take 2 (drop (2 + 7) jpeg_7x5)) = 7" "be_value (take 2 (drop (2 + 5) jpeg_7x5)) = 5"
    by (simp_all add: jpeg_7x5_def be_value_def sof0_pair_def)
  have before: "\<forall>j<2. \<not> sof0_pair jpeg_7x5 j"
  proof (intro allI impI)
    fix j :: nat assume "j < 2"
    then have "j = 0 \<or> j = 1" by auto
    then show "\<not> sof0_pair jpeg_7x5 j" by (auto simp: jpeg_7x5_def sof0_pair_def)
  qed
  have plain: "take 2 plain_text \<noteq> [0x89, 0x50]"
    by (simp add: plain_text_def)
  have none: "\<forall>j. j + 9 < length plain_text \<longrightarrow> \<not> sof0_pair plain_text j"
  proof (intro allI impI)
    fix j :: nat assume "j + 9 < length plain_text"
    then have "j = 0 \<or> j = 1 \<or> j = 2" by (auto simp: plain_text_def)
    then show "\<not> sof0_pair plain_text j" by (auto simp: plain_text_def sof0_pair_def)
  qed
  have r1: "getImageDimensions Map.empty ''f'' = \<lparr>width = 0, height = 0\<rparr>"
    using getImageDimensions_reads_headers [where fs = Map.empty and p = "''f''"] by simp
  have r2: "getImageDimensions [''f'' \<mapsto> png_2x3] ''f'' = \<lparr>width = 2, height = 3\<rparr>"
    using getImageDimensions_reads_headers [where fs = "[''f'' \<mapsto> png_2x3]" and p = "''f''"
        and bytes = png_2x3] png by simp
  have r3: "getImageDimensions [''f'' \<mapsto> take 20 png_2x3] ''f'' = \<lparr>width = 2, height = 0\<rparr>"
    using getImageDimensions_reads_headers [where fs = "[''f'' \<mapsto> take 20 png_2x3]"
        and p = "''f''" and bytes = "take 20 png_2x3"] cut by simp
  have r4: "getImageDimensions [''f'' \<mapsto> jpeg_7x5] ''f'' = \<lparr>width = 7, height = 5\<rparr>"
    using getImageDimensions_reads_headers [where fs = "[''f'' \<mapsto> jpeg_7x5]" and p = "''f''"
        and bytes = jpeg_7x5 and n = 2] jpg before by simp
  have r5: "getImageDimensions [''f'' \<mapsto> plain_text] ''f'' = \<lparr>width = 0, height = 0\<rparr>"
    using getImageDimensions_reads_headers [where fs = "[''f'' \<mapsto> plain_text]" and p = "''f''"
        and bytes = plain_text] plain none by simp
  show ?thesis using sig r1 r2 r3 r4 r5 jpg(3) by simp
qed

end
